theory Spec2Isabelle
  imports Complex_Main "HOL-Library.AList"
begin

section \<open>Work Hours Logger: the time-accounting engine of timelogger.py\<close>

text \<open>
  The development embeds the class \<open>WorkLogger\<close> of \<open>src/timelogger.py\<close>.

  Conventions of the embedding.
  \<^item> A \<open>datetime.date\<close> is its proleptic Gregorian ordinal (\<open>date.toordinal()\<close>), an
    \<open>int\<close>; adding a \<open>timedelta(days=k)\<close> is adding \<open>k\<close>. The conversions between
    ordinals and year, month, day follow \<open>Lib/_pydatetime.py\<close>.
  \<^item> A Python \<open>float\<close> is modelled by the exact number it stands for, a \<open>real\<close>. In
    the worked time of a day and in the weekly total, division, subtraction and
    summation are exact, and \<open>round(x, 2)\<close> is rounding to the nearest hundredth (ties to
    even). In the projection of an active session, where a rounding error can change a
    whole minute or the sign of a value, every floating-point operation is the exact
    operation followed by a rounding function \<open>fl\<close>. The rounding is a parameter of the
    projection, and what is proved of the projection holds for every rounding; it is
    stated on the weekly hours that the projection returns.
  \<^item> The clock is read once per operation and passed in as the argument \<open>now\<close>.
  \<^item> Console output is not modelled, except that every operation returns a \<open>report\<close>
    naming the message that ends it.
  \<^item> Characters are ASCII; \<open>\d\<close> of the \<open>strptime\<close> patterns is a digit \<open>0\<close> to \<open>9\<close>.
\<close>

subsection \<open>Digits and decimal strings\<close>

definition is_digit :: "char \<Rightarrow> bool" where
  "is_digit c = (c \<in> set ''0123456789'')"

definition digit_val :: "char \<Rightarrow> nat" where
  "digit_val c = of_char c - 48"

definition digit_char :: "nat \<Rightarrow> char" where
  "digit_char n = ''0123456789'' ! n"

definition dec :: "string \<Rightarrow> nat" where
  "dec s = foldl (\<lambda>n c. 10 * n + digit_val c) 0 s"

text \<open>\<open>'%02d'\<close> and \<open>'%04d'\<close> for values below 100 and 10000.\<close>

definition pad2 :: "nat \<Rightarrow> string" where
  "pad2 n = [digit_char (n div 10 mod 10), digit_char (n mod 10)]"

definition pad4 :: "nat \<Rightarrow> string" where
  "pad4 n = [digit_char (n div 1000 mod 10), digit_char (n div 100 mod 10),
             digit_char (n div 10 mod 10), digit_char (n mod 10)]"

subsection \<open>The calendar of \<open>datetime\<close>\<close>

definition is_leap :: "int \<Rightarrow> bool" where
  "is_leap year = (year mod 4 = 0 \<and> (year mod 100 \<noteq> 0 \<or> year mod 400 = 0))"

definition DAYS_IN_MONTH :: "int list" where
  "DAYS_IN_MONTH = [-1, 31, 28, 31, 30, 31, 30, 31, 31, 30, 31, 30, 31]"

definition DAYS_BEFORE_MONTH :: "int list" where
  "DAYS_BEFORE_MONTH = [-1, 0, 31, 59, 90, 120, 151, 181, 212, 243, 273, 304, 334]"

definition days_before_year :: "int \<Rightarrow> int" where
  "days_before_year year =
     (let y = year - 1 in y * 365 + y div 4 - y div 100 + y div 400)"

definition days_in_month :: "int \<Rightarrow> int \<Rightarrow> int" where
  "days_in_month year month =
     (if month = 2 \<and> is_leap year then 29 else DAYS_IN_MONTH ! nat month)"

definition days_before_month :: "int \<Rightarrow> int \<Rightarrow> int" where
  "days_before_month year month =
     DAYS_BEFORE_MONTH ! nat month + (if month > 2 \<and> is_leap year then 1 else 0)"

definition ymd2ord :: "int \<Rightarrow> int \<Rightarrow> int \<Rightarrow> int" where
  "ymd2ord year month day = days_before_year year + days_before_month year month + day"

definition ord2ymd :: "int \<Rightarrow> int \<times> int \<times> int" where
  "ord2ymd ordinal =
     (let n = ordinal - 1;
          n400 = n div 146097; n = n mod 146097;
          year = n400 * 400 + 1;
          n100 = n div 36524; n = n mod 36524;
          n4 = n div 1461; n = n mod 1461;
          n1 = n div 365; n = n mod 365;
          year = year + n100 * 100 + n4 * 4 + n1
      in if n1 = 4 \<or> n100 = 4 then (year - 1, 12, 31)
         else
           (let leapyear = (n1 = 3 \<and> (n4 \<noteq> 24 \<or> n100 = 3));
                month = (n + 50) div 32;
                preceding = DAYS_BEFORE_MONTH ! nat month
                              + (if month > 2 \<and> leapyear then 1 else 0)
            in if preceding > n
               then (let month = month - 1;
                         preceding = preceding
                            - (DAYS_IN_MONTH ! nat month
                                 + (if month = 2 \<and> leapyear then 1 else 0))
                     in (year, month, n - preceding + 1))
               else (year, month, n - preceding + 1)))"

text \<open>\<open>date.weekday()\<close>: Monday is 0.\<close>

definition weekday :: "int \<Rightarrow> int" where
  "weekday d = (d + 6) mod 7"

subsection \<open>\<open>datetime\<close> values, \<open>strftime\<close> and \<open>strptime\<close>\<close>

record datetime =
  dt_date :: int
  dt_hour :: nat
  dt_minute :: nat
  dt_second :: nat
  dt_microsecond :: nat

text \<open>Minutes since midnight of ordinal 0; \<open>(a - b).total_seconds() / 60\<close> is the
  difference of two such values, and \<open>a < b\<close> compares them.\<close>

definition dt_minutes :: "datetime \<Rightarrow> real" where
  "dt_minutes t =
     of_int (dt_date t) * 1440 + of_nat (dt_hour t) * 60 + of_nat (dt_minute t)
       + of_nat (dt_second t) / 60 + of_nat (dt_microsecond t) / 60000000"

definition dt_less :: "datetime \<Rightarrow> datetime \<Rightarrow> bool" where
  "dt_less a b = (dt_minutes a < dt_minutes b)"

definition add_days :: "datetime \<Rightarrow> int \<Rightarrow> datetime" where
  "add_days t k = t\<lparr>dt_date := dt_date t + k\<rparr>"

text \<open>\<open>strftime("%Y-%m-%d")\<close> and \<open>strftime("%H:%M")\<close>.\<close>

definition strftime_date :: "int \<Rightarrow> string" where
  "strftime_date d =
     (case ord2ymd d of (y, m, dd) \<Rightarrow>
        pad4 (nat y) @ ''-'' @ pad2 (nat m) @ ''-'' @ pad2 (nat dd))"

definition strftime_hm :: "datetime \<Rightarrow> string" where
  "strftime_hm t = pad2 (dt_hour t) @ '':'' @ pad2 (dt_minute t)"

text \<open>
  \<open>strptime\<close> compiles its format to a regular expression; the directives used here are
  \<open>%Y = \d\d\d\d\<close>, \<open>%m = 1[0-2]|0[1-9]|[1-9]\<close>,
  \<open>%d = 3[01]|[12]\d|0[1-9]|[1-9]| [1-9]\<close>, \<open>%H = 2[0-3]|[0-1]\d|\d\<close> and
  \<open>%M = [0-5]\d|\d\<close>, and the whole string has to be consumed. The fields are
  separated by characters that no field contains, so each field is the text between
  two separators. \<open>None\<close> stands for \<open>ValueError\<close>.
\<close>

definition digits :: "string \<Rightarrow> bool" where
  "digits s = (s \<noteq> [] \<and> list_all is_digit s)"

definition year_field :: "string \<Rightarrow> nat option" where
  "year_field s = (if length s = 4 \<and> digits s then Some (dec s) else None)"

definition month_field :: "string \<Rightarrow> nat option" where
  "month_field s =
     (if length s \<le> 2 \<and> digits s \<and> 1 \<le> dec s \<and> dec s \<le> 12 then Some (dec s) else None)"

definition day_field :: "string \<Rightarrow> nat option" where
  "day_field s =
     (if length s \<le> 2 \<and> digits s \<and> 1 \<le> dec s \<and> dec s \<le> 31 then Some (dec s)
      else (case s of
              [sp, c] \<Rightarrow> if sp = CHR '' '' \<and> is_digit c \<and> 1 \<le> digit_val c
                         then Some (digit_val c) else None
            | _ \<Rightarrow> None))"

definition hour_field :: "string \<Rightarrow> nat option" where
  "hour_field s = (if length s \<le> 2 \<and> digits s \<and> dec s \<le> 23 then Some (dec s) else None)"

definition minute_field :: "string \<Rightarrow> nat option" where
  "minute_field s = (if length s \<le> 2 \<and> digits s \<and> dec s \<le> 59 then Some (dec s) else None)"

text \<open>The text before the first occurrence of a separator, and the text after it
  (\<open>None\<close> when the separator does not occur).\<close>

definition before :: "char \<Rightarrow> string \<Rightarrow> string" where
  "before sep s = takeWhile (\<lambda>c. c \<noteq> sep) s"

definition after :: "char \<Rightarrow> string \<Rightarrow> string option" where
  "after sep s = (case dropWhile (\<lambda>c. c \<noteq> sep) s of [] \<Rightarrow> None | _ # r \<Rightarrow> Some r)"

text \<open>\<open>strptime(s, "%H:%M")\<close>: the hour and the minute.\<close>

definition strptime_hm :: "string \<Rightarrow> (nat \<times> nat) option" where
  "strptime_hm s =
     (case after CHR '':'' s of
        None \<Rightarrow> None
      | Some ms \<Rightarrow>
          (case (hour_field (before CHR '':'' s), minute_field ms) of
             (Some h, Some m) \<Rightarrow> Some (h, m)
           | _ \<Rightarrow> None))"

text \<open>\<open>strptime(s, "%Y-%m-%d")\<close>: the ordinal of the date. Year 0 and a day beyond the
  end of its month raise \<open>ValueError\<close> as well.\<close>

definition strptime_date :: "string \<Rightarrow> int option" where
  "strptime_date s =
     (case after CHR ''-'' s of
        None \<Rightarrow> None
      | Some r \<Rightarrow>
          (case after CHR ''-'' r of
             None \<Rightarrow> None
           | Some ds \<Rightarrow>
               (case (year_field (before CHR ''-'' s), month_field (before CHR ''-'' r),
                      day_field ds) of
                  (Some y, Some m, Some d) \<Rightarrow>
                    if 1 \<le> y \<and> int d \<le> days_in_month (int y) (int m)
                    then Some (ymd2ord (int y) (int m) (int d)) else None
                | _ \<Rightarrow> None)))"

text \<open>
  \<open>strptime(f"{date_str} {time_str}", "%Y-%m-%d %H:%M")\<close>, read as its two halves: the
  date before the blank and the time after it.
\<close>

definition strptime_datetime :: "string \<Rightarrow> string \<Rightarrow> datetime option" where
  "strptime_datetime date_str time_str =
     (case (strptime_date date_str, strptime_hm time_str) of
        (Some d, Some (h, m)) \<Rightarrow>
          Some \<lparr>dt_date = d, dt_hour = h, dt_minute = m, dt_second = 0, dt_microsecond = 0\<rparr>
      | _ \<Rightarrow> None)"

subsection \<open>Python arithmetic\<close>

text \<open>\<open>int(x)\<close> truncates towards zero.\<close>

definition py_int :: "real \<Rightarrow> int" where
  "py_int x = (if 0 \<le> x then \<lfloor>x\<rfloor> else \<lceil>x\<rceil>)"

text \<open>\<open>round(x)\<close> and \<open>round(x, 2)\<close>: to the nearest value, a tie to the even one.\<close>

definition round_half_even :: "real \<Rightarrow> int" where
  "round_half_even y =
     (let f = \<lfloor>y\<rfloor>; r = y - of_int f
      in if r < 1 / 2 then f else if 1 / 2 < r then f + 1 else if even f then f else f + 1)"

definition round2 :: "real \<Rightarrow> real" where
  "round2 x = of_int (round_half_even (x * 100)) / 100"

text \<open>\<open>int(s)\<close> on a stripped string: an optional sign, then digits, single underscores
  allowed between digits. \<open>None\<close> stands for \<open>ValueError\<close>.\<close>

fun digit_groups :: "string \<Rightarrow> bool" where
  "digit_groups [] = False"
| "digit_groups [c] = is_digit c"
| "digit_groups (c # d # r) =
     (is_digit c \<and> (if d = CHR ''_'' then digit_groups r else digit_groups (d # r)))"

definition int_of_str :: "string \<Rightarrow> int option" where
  "int_of_str s =
     (let (neg, body) =
            (case s of
               [] \<Rightarrow> (False, [])
             | c # r \<Rightarrow> if c = CHR ''-'' then (True, r)
                        else if c = CHR ''+'' then (False, r) else (False, s))
      in if digit_groups body
         then Some ((if neg then - 1 else 1) * int (dec (filter (\<lambda>c. c \<noteq> CHR ''_'') body)))
         else None)"

text \<open>\<open>str.lower()\<close> on ASCII.\<close>

definition lower :: "string \<Rightarrow> string" where
  "lower s = map (\<lambda>c. let n = (of_char c :: nat)
                       in if 65 \<le> n \<and> n \<le> 90 then char_of (n + 32) else c) s"

subsection \<open>The store\<close>

text \<open>
  \<open>self.data\<close> is a dictionary with the key \<open>'settings'\<close> and one key per logged date.
  The entry of a date is a dictionary with the optional keys \<open>'start'\<close>, \<open>'end'\<close>,
  \<open>'hours_worked'\<close> and \<open>'total_minutes'\<close>; the empty dictionary \<open>{}\<close> is the entry with
  no key. The date entries are kept as an association list in insertion order, the
  settings beside them. \<open>data_file\<close> is the content of the JSON file, \<open>None\<close> before the first
  write.
\<close>

record entry =
  start :: "string option"
  end_str :: "string option"
  hours_worked :: "real option"
  total_minutes :: "int option"

definition empty_entry :: entry where
  "empty_entry = \<lparr>start = None, end_str = None, hours_worked = None, total_minutes = None\<rparr>"

record store =
  lunch_break_minutes :: int
  entries :: "(string \<times> entry) list"

record state =
  data :: store
  data_file :: "store option"

datatype report =
    Logged
  | InvalidTimeFormat
  | MissingStart
  | NoWorkLogs
  | Cancelled
  | InvalidDateFormat
  | ChangesSaved
  | EntryNotFound
  | Deleted
  | InvalidLunchDuration
  | InvalidInput
  | InvalidChoice
  | LunchUpdated
  | UncaughtValueError

definition save_data :: "state \<Rightarrow> state" where
  "save_data st = st\<lparr>data_file := Some (data st)\<rparr>"

definition get_lunch_break_minutes :: "state \<Rightarrow> int" where
  "get_lunch_break_minutes st = lunch_break_minutes (data st)"

definition set_lunch_break_minutes :: "int \<Rightarrow> state \<Rightarrow> state" where
  "set_lunch_break_minutes minutes st =
     save_data (st\<lparr>data := (data st)\<lparr>lunch_break_minutes := minutes\<rparr>\<rparr>)"

text \<open>Assigning the dictionary of date entries, \<open>self.data[date_str]\<close> for the date
  entries.\<close>

definition set_entries :: "(string \<times> entry) list \<Rightarrow> state \<Rightarrow> state" where
  "set_entries es st = st\<lparr>data := (data st)\<lparr>entries := es\<rparr>\<rparr>"

text \<open>\<open>if date_str not in self.data: self.data[date_str] = {}\<close>, together with the
  entry then found under the key.\<close>

definition setdefault_entry ::
  "string \<Rightarrow> (string \<times> entry) list \<Rightarrow> entry \<times> (string \<times> entry) list" where
  "setdefault_entry date_str es =
     (case map_of es date_str of
        None \<Rightarrow> (empty_entry, AList.update date_str empty_entry es)
      | Some e \<Rightarrow> (e, es))"

subsection \<open>Worked time\<close>

text \<open>
  The block that \<open>log_end\<close>, \<open>recalculate_all_entries\<close> and \<open>edit_past_day\<close> each
  contain: an end before the start is moved to the next day, the lunch break is
  subtracted, and \<open>(hours_worked, total_minutes)\<close> is what the entry receives.
\<close>

definition compute_worked :: "datetime \<Rightarrow> datetime \<Rightarrow> int \<Rightarrow> real \<times> int" where
  "compute_worked start_datetime end_datetime lunch_minutes =
     (let end_datetime = (if dt_less end_datetime start_datetime
                          then add_days end_datetime 1 else end_datetime);
          total_minutes = dt_minutes end_datetime - dt_minutes start_datetime;
          worked_minutes = total_minutes - of_int lunch_minutes;
          worked_hours = worked_minutes / 60
      in (round2 worked_hours, py_int worked_minutes))"

text \<open>One pass of the loop of \<open>recalculate_all_entries\<close>: the entry as the pass leaves
  it, and whether \<open>recalculated_count\<close> was incremented.\<close>

definition recalculate_entry :: "int \<Rightarrow> string \<Rightarrow> entry \<Rightarrow> entry \<times> bool" where
  "recalculate_entry lunch_minutes date_str e =
     (if date_str = ''settings'' then (e, False)
      else case (start e, end_str e) of
          (Some s, Some en) \<Rightarrow>
            (case strptime_datetime date_str s of
               None \<Rightarrow> (e, False)
             | Some start_datetime \<Rightarrow>
                 (case strptime_datetime date_str en of
                    None \<Rightarrow> (e, False)
                  | Some end_datetime \<Rightarrow>
                      (case compute_worked start_datetime end_datetime lunch_minutes of
                         (h, m) \<Rightarrow>
                           (e\<lparr>hours_worked := Some h, total_minutes := Some m\<rparr>, True))))
        | _ \<Rightarrow> (e, False))"

fun recalculate_loop ::
  "int \<Rightarrow> (string \<times> entry) list \<Rightarrow> (string \<times> entry) list \<times> nat" where
  "recalculate_loop lunch_minutes [] = ([], 0)"
| "recalculate_loop lunch_minutes ((date_str, e) # items) =
     (case recalculate_entry lunch_minutes date_str e of
        (e', counted) \<Rightarrow>
          (case recalculate_loop lunch_minutes items of
             (items', n) \<Rightarrow> ((date_str, e') # items', (if counted then 1 else 0) + n)))"

definition recalculate_all_entries :: "state \<Rightarrow> state" where
  "recalculate_all_entries st =
     (let lunch_minutes = get_lunch_break_minutes st in
      case recalculate_loop lunch_minutes (entries (data st)) of
        (es, recalculated_count) \<Rightarrow>
          (let st = set_entries es st
           in if recalculated_count > 0 then save_data st else st))"

text \<open>The menu of \<open>configure_lunch_break\<close>: \<open>choice\<close> and, for choice 6, \<open>custom_input\<close>
  are what the user types.\<close>

definition configure_lunch_break :: "string \<Rightarrow> string \<Rightarrow> state \<Rightarrow> report \<times> state" where
  "configure_lunch_break choice custom_input st =
     (case (if choice = ''1'' then Inr 0
            else if choice = ''2'' then Inr 15
            else if choice = ''3'' then Inr 30
            else if choice = ''4'' then Inr 45
            else if choice = ''5'' then Inr 60
            else if choice = ''6'' then
              (case int_of_str custom_input of
                 None \<Rightarrow> Inl InvalidInput
               | Some custom_minutes \<Rightarrow>
                   if 0 \<le> custom_minutes \<and> custom_minutes \<le> 120 then Inr custom_minutes
                   else Inl InvalidLunchDuration)
            else if choice = ''7'' then Inl Cancelled
            else Inl InvalidChoice) of
        Inl r \<Rightarrow> (r, st)
      | Inr new_minutes \<Rightarrow>
          (LunchUpdated, recalculate_all_entries (set_lunch_break_minutes new_minutes st)))"

subsection \<open>The weekly rollover\<close>

definition clear_previous_entries :: "state \<Rightarrow> state" where
  "clear_previous_entries st = save_data (set_entries [] st)"

definition is_first_monday_input :: "state \<Rightarrow> int \<Rightarrow> bool" where
  "is_first_monday_input st target_date =
     (if weekday target_date \<noteq> 0 then False
      else (let date_str = strftime_date target_date
            in case map_of (entries (data st)) date_str of
                 None \<Rightarrow> True
               | Some e \<Rightarrow> e = empty_entry))"

subsection \<open>The weekly total\<close>

definition get_week_start :: "int \<Rightarrow> int" where
  "get_week_start date = date - weekday date"

text \<open>The body of the loop \<open>for i in range(7)\<close>, on the pair
  \<open>(total_hours, week_dates)\<close>.\<close>

definition week_day_step ::
  "state \<Rightarrow> int \<Rightarrow> real \<times> string list \<Rightarrow> nat \<Rightarrow> real \<times> string list" where
  "week_day_step st week_start acc i =
     (case acc of (total_hours, week_dates) \<Rightarrow>
        (let date = week_start + int i;
             date_str = strftime_date date;
             week_dates = week_dates @ [date_str]
         in case map_of (entries (data st)) date_str of
              None \<Rightarrow> (total_hours, week_dates)
            | Some entry \<Rightarrow>
                (let hours = (case hours_worked entry of None \<Rightarrow> 0 | Some h \<Rightarrow> h)
                 in (total_hours + hours, week_dates))))"

definition get_weekly_hours :: "state \<Rightarrow> int \<Rightarrow> real \<times> string list" where
  "get_weekly_hours st target_date =
     (let week_start = get_week_start target_date
      in foldl (week_day_step st week_start) (0, []) [0..<7])"

subsection \<open>The projection of an active session\<close>

record work_info =
  start_time :: string
  elapsed_hours :: int
  elapsed_minutes :: int
  work_hours :: int
  work_minutes :: int
  total_work_minutes :: int
  weekly_hours :: real
  current_day_hours :: real
  remaining_weekly_hours :: real
  lunch_minutes :: int
  time_to_leave_7h :: "string option"
  hours_until_7h :: int
  mins_until_7h :: int
  daily_target_reached :: bool
  show_35h_target :: bool
  time_to_leave_35h :: "string option"
  hours_until_35h :: int
  mins_until_35h :: int
  weekly_target_reached :: bool
  minutes_needed_for_35h :: int

text \<open>\<open>(t + timedelta(minutes=x)).strftime("%H:%M")\<close> for a float \<open>x\<close>, as
  \<open>Modules/_datetimemodule.c\<close> computes it. A \<open>timedelta\<close> is a whole number of
  microseconds: the whole minutes of \<open>x\<close> count 60000000 microseconds each, exactly; the
  fraction of a minute is multiplied by 60000000 in floating point (rounded by \<open>fl\<close>);
  the sum is rounded to a whole number, ties to even. The result is the minute of the
  day that this time after \<open>t\<close> falls in. For a whole number of minutes, as an \<open>int\<close>
  argument is, nothing is rounded.\<close>

definition leave_time :: "(real \<Rightarrow> real) \<Rightarrow> datetime \<Rightarrow> real \<Rightarrow> string" where
  "leave_time fl t x =
     (let intpart = py_int x;
          fracpart = x - of_int intpart;
          microseconds =
            round_half_even (of_int (intpart * 60000000)
                             + (if fracpart = 0 then 0 else fl (60000000 * fracpart)));
          m = \<lfloor>dt_minutes t + of_int microseconds / 60000000\<rfloor> mod 1440
      in pad2 (nat (m div 60)) @ '':'' @ pad2 (nat (m mod 60)))"

text \<open>
  \<open>get_current_work_time\<close>. The elapsed and the worked minutes are integers. The weekly
  hours, and all that is computed from them, are floats: \<open>35 - weekly_hours\<close>, its
  product with 60, the difference to the worked minutes, the sum with the lunch break
  and the quotient \<open>work_minutes / 60\<close> are each rounded by \<open>fl\<close>, and so is the sum
  of the elapsed and the needed minutes that gives the time to leave. An \<open>int\<close> that
  enters such an operation (35, 60, the worked minutes, the lunch break) is converted
  without error. The weekly hours themselves come from \<open>get_weekly_hours\<close>; the stored
  hours range over all reals, hence so do the weekly hours.
\<close>

definition get_current_work_time ::
  "(real \<Rightarrow> real) \<Rightarrow> datetime \<Rightarrow> state \<Rightarrow> work_info option" where
  "get_current_work_time fl now st =
     (let today = strftime_date (dt_date now) in
      case map_of (entries (data st)) today of
        None \<Rightarrow> None
      | Some entry \<Rightarrow>
          (case start entry of
             None \<Rightarrow> None
           | Some entry_start \<Rightarrow>
               if end_str entry \<noteq> None then None
               else
                 (case strptime_datetime today entry_start of
                    None \<Rightarrow> None
                  | Some parsed \<Rightarrow>
                      (let start_time = parsed;
                           current_time = now;
                           total_minutes = py_int (dt_minutes current_time - dt_minutes start_time);
                           hours = total_minutes div 60;
                           minutes = total_minutes mod 60;
                           lunch_minutes = get_lunch_break_minutes st;
                           work_minutes =
                             total_minutes - (if total_minutes > 240 then lunch_minutes else 0);
                           work_hours = work_minutes div 60;
                           work_mins_remainder = work_minutes mod 60;
                           weekly_hours = fst (get_weekly_hours st (dt_date now));
                           current_day_hours = fl (of_int work_minutes / 60);
                           target_total_minutes = 420 + lunch_minutes;
                           minutes_until_7h = target_total_minutes - total_minutes;
                           (time_to_leave_7h, hours_until_7h, mins_until_7h) =
                             (if minutes_until_7h > 0
                              then (Some (leave_time fl start_time (of_int target_total_minutes)),
                                    minutes_until_7h div 60, minutes_until_7h mod 60)
                              else (None, 0, 0));
                           remaining_weekly_hours = fl (35 - weekly_hours);
                           remaining_weekly_minutes = fl (remaining_weekly_hours * 60);
                           minutes_needed_for_35h =
                             fl (remaining_weekly_minutes - of_int work_minutes);
                           show_35h_target = (weekly_hours > 27);
                           (minutes_needed_for_35h, time_to_leave_35h, hours_until_35h,
                            mins_until_35h) =
                             (if show_35h_target \<and> minutes_needed_for_35h > 0
                              then
                                (let minutes_needed_for_35h =
                                       (if total_minutes \<le> 240
                                        then fl (minutes_needed_for_35h + of_int lunch_minutes)
                                        else minutes_needed_for_35h);
                                     total_minutes_for_35h =
                                       fl (of_int total_minutes + minutes_needed_for_35h)
                                 in (minutes_needed_for_35h,
                                     Some (leave_time fl start_time total_minutes_for_35h),
                                     py_int minutes_needed_for_35h div 60,
                                     py_int minutes_needed_for_35h mod 60))
                              else (minutes_needed_for_35h, None, 0, 0))
                       in Some \<lparr>
                            start_time = entry_start,
                            elapsed_hours = hours,
                            elapsed_minutes = minutes,
                            work_hours = work_hours,
                            work_minutes = work_mins_remainder,
                            total_work_minutes = work_minutes,
                            weekly_hours = weekly_hours,
                            current_day_hours = current_day_hours,
                            remaining_weekly_hours = remaining_weekly_hours,
                            lunch_minutes = lunch_minutes,
                            time_to_leave_7h = time_to_leave_7h,
                            hours_until_7h = hours_until_7h,
                            mins_until_7h = mins_until_7h,
                            daily_target_reached = (minutes_until_7h \<le> 0),
                            show_35h_target = show_35h_target,
                            time_to_leave_35h = time_to_leave_35h,
                            hours_until_35h = hours_until_35h,
                            mins_until_35h = mins_until_35h,
                            weekly_target_reached = (remaining_weekly_hours \<le> current_day_hours),
                            minutes_needed_for_35h = max 0 (py_int minutes_needed_for_35h)
                          \<rparr>))))"

subsection \<open>Logging the start and the end of a day\<close>

text \<open>
  The time a log command is about: the typed \<open>HH:MM\<close> on today's date when \<open>time_str\<close>
  is given and not empty, the clock otherwise. \<open>None\<close> is the \<open>ValueError\<close> that both
  commands answer with "Invalid time format".
\<close>

definition resolve_time :: "datetime \<Rightarrow> string option \<Rightarrow> datetime option" where
  "resolve_time now time_str =
     (case time_str of
        None \<Rightarrow> Some now
      | Some t \<Rightarrow>
          if t = [] then Some now
          else (case strptime_hm t of
                  None \<Rightarrow> None
                | Some (h, m) \<Rightarrow>
                    Some \<lparr>dt_date = dt_date now, dt_hour = h, dt_minute = m,
                          dt_second = 0, dt_microsecond = 0\<rparr>))"

definition log_start :: "datetime \<Rightarrow> string option \<Rightarrow> state \<Rightarrow> report \<times> state" where
  "log_start now time_str st =
     (let st = (if is_first_monday_input st (dt_date now)
                then clear_previous_entries st else st)
      in case resolve_time now time_str of
           None \<Rightarrow> (InvalidTimeFormat, st)
         | Some resolved \<Rightarrow>
             (let start_time = resolved;
                  date_str = strftime_date (dt_date start_time)
              in case setdefault_entry date_str (entries (data st)) of
                   (e, es) \<Rightarrow>
                     (let e = e\<lparr>start := Some (strftime_hm start_time)\<rparr>;
                          st = set_entries (AList.update date_str e es) st
                      in (Logged, save_data st))))"

definition log_end :: "datetime \<Rightarrow> string option \<Rightarrow> state \<Rightarrow> report \<times> state" where
  "log_end now time_str st =
     (let st = (if is_first_monday_input st (dt_date now)
                then clear_previous_entries st else st)
      in case resolve_time now time_str of
           None \<Rightarrow> (InvalidTimeFormat, st)
         | Some end_time \<Rightarrow>
             (let date_str = strftime_date (dt_date end_time)
              in case setdefault_entry date_str (entries (data st)) of
                   (e, es) \<Rightarrow>
                     (let st = set_entries es st
                      in case start e of
                           None \<Rightarrow> (MissingStart, st)
                         | Some entry_start \<Rightarrow>
                             (let e = e\<lparr>end_str := Some (strftime_hm end_time)\<rparr>;
                                  st = set_entries (AList.update date_str e es) st
                              in case strptime_datetime date_str entry_start of
                                   None \<Rightarrow> (UncaughtValueError, st)
                                 | Some start_datetime \<Rightarrow>
                                     (case compute_worked start_datetime end_time
                                             (get_lunch_break_minutes st) of
                                        (h, m) \<Rightarrow>
                                          (let e = e\<lparr>hours_worked := Some h,
                                                     total_minutes := Some m\<rparr>;
                                               st = set_entries (AList.update date_str e es) st
                                           in (Logged, save_data st)))))))"

subsection \<open>Editing and deleting a day\<close>

text \<open>\<open>work_entries\<close>: the items of \<open>self.data\<close> but the settings.\<close>

definition work_entries :: "state \<Rightarrow> (string \<times> entry) list" where
  "work_entries st = filter (\<lambda>(k, v). k \<noteq> ''settings'') (entries (data st))"

text \<open>\<open>date_input\<close>, \<open>new_start\<close> and \<open>new_end\<close> are the three answers of the user, each
  stripped; an empty answer keeps what is there.\<close>

definition edit_past_day :: "string \<Rightarrow> string \<Rightarrow> string \<Rightarrow> state \<Rightarrow> report \<times> state" where
  "edit_past_day date_input new_start new_end st =
     (if work_entries st = [] then (NoWorkLogs, st)
      else if date_input = [] then (Cancelled, st)
      else if strptime_date date_input = None then (InvalidDateFormat, st)
      else case setdefault_entry date_input (entries (data st)) of
        (e, es) \<Rightarrow>
          (let e = (if new_start \<noteq> [] \<and> strptime_hm new_start \<noteq> None
                    then e\<lparr>start := Some new_start\<rparr> else e);
               e = (if new_end \<noteq> [] \<and> strptime_hm new_end \<noteq> None
                    then e\<lparr>end_str := Some new_end\<rparr> else e);
               st = set_entries (AList.update date_input e es) st
           in case (start e, end_str e) of
                (Some start_s, Some end_s) \<Rightarrow>
                  (case strptime_datetime date_input start_s of
                     None \<Rightarrow> (UncaughtValueError, st)
                   | Some start_datetime \<Rightarrow>
                       (case strptime_datetime date_input end_s of
                          None \<Rightarrow> (UncaughtValueError, st)
                        | Some end_datetime \<Rightarrow>
                            (case compute_worked start_datetime end_datetime
                                    (get_lunch_break_minutes st) of
                               (h, m) \<Rightarrow>
                                 (let e = e\<lparr>hours_worked := Some h, total_minutes := Some m\<rparr>;
                                      st = set_entries (AList.update date_input e es) st
                                  in (ChangesSaved, save_data st)))))
              | _ \<Rightarrow> (ChangesSaved, save_data st)))"

definition delete_day :: "string \<Rightarrow> string \<Rightarrow> state \<Rightarrow> report \<times> state" where
  "delete_day date_input confirm st =
     (if work_entries st = [] then (NoWorkLogs, st)
      else if date_input = [] then (Cancelled, st)
      else if map_of (entries (data st)) date_input = None \<or> date_input = ''settings''
      then (EntryNotFound, st)
      else if lower confirm \<in> set [''y'', ''yes'']
      then (Deleted, save_data (set_entries (AList.delete date_input (entries (data st))) st))
      else (Cancelled, st))"

subsection \<open>Terms of the specification\<close>

text \<open>What a date contributes to the weekly total according to the specification:
  the \<open>hours_worked\<close> of its entry, and 0 when the date has no entry or the entry has no
  \<open>hours_worked\<close>.\<close>

definition spec_day_hours :: "state \<Rightarrow> int \<Rightarrow> real" where
  "spec_day_hours st date =
     (case map_of (entries (data st)) (strftime_date date) of
        None \<Rightarrow> 0
      | Some e \<Rightarrow> (case hours_worked e of None \<Rightarrow> 0 | Some h \<Rightarrow> h))"

text \<open>The worked time according to the specification, for a start and an end given as
  (hour, minute) and a lunch break \<open>L\<close>: the minutes from the start to the end, the end
  taken on the next day when it is earlier on the wall clock than the start, less \<open>L\<close>;
  and the hours, \<open>round(totalMinutes / 60, 2)\<close>.\<close>

definition spec_total_minutes :: "nat \<times> nat \<Rightarrow> nat \<times> nat \<Rightarrow> int \<Rightarrow> int" where
  "spec_total_minutes s e L =
     (let s_min = int (fst s * 60 + snd s);
          e_min = int (fst e * 60 + snd e)
      in (if e_min < s_min then e_min + 1440 - s_min else e_min - s_min) - L)"

definition spec_hours_worked :: "int \<Rightarrow> real" where
  "spec_hours_worked w = round2 (of_int w / 60)"

section \<open>Example states\<close>

text \<open>A week with seven hours on Monday 2024-01-01 and on Tuesday 2024-01-02, and a
  session started on Wednesday.\<close>

definition week_example :: state where
  "week_example =
     \<lparr>data = \<lparr>lunch_break_minutes = 30,
              entries =
                [(''2024-01-01'', \<lparr>start = Some ''09:00'', end_str = Some ''16:30'',
                                   hours_worked = Some 7, total_minutes = Some 420\<rparr>),
                 (''2024-01-02'', \<lparr>start = Some ''09:00'', end_str = Some ''16:30'',
                                   hours_worked = Some 7, total_minutes = Some 420\<rparr>),
                 (''2024-01-03'', \<lparr>start = Some ''09:00'', end_str = None,
                                   hours_worked = None, total_minutes = None\<rparr>)]\<rparr>,
      data_file = None\<rparr>"

text \<open>Friday 2024-01-05 (ordinal 738890) with a session started at 09:00, after four
  days from Monday to Thursday that each ended at \<open>e\<close> with \<open>h\<close> hours and \<open>m\<close>
  minutes worked.\<close>

definition friday_session :: "string \<Rightarrow> real \<Rightarrow> int \<Rightarrow> state" where
  "friday_session e h m =
     (let day = \<lparr>start = Some ''09:00'', end_str = Some e,
                 hours_worked = Some h, total_minutes = Some m\<rparr>
      in \<lparr>data = \<lparr>lunch_break_minutes = 30,
                   entries = [(''2024-01-01'', day), (''2024-01-02'', day),
                              (''2024-01-03'', day), (''2024-01-04'', day),
                              (''2024-01-05'', empty_entry\<lparr>start := Some ''09:00''\<rparr>)]\<rparr>,
          data_file = None\<rparr>)"

definition friday_at :: "nat \<Rightarrow> nat \<Rightarrow> datetime" where
  "friday_at h m =
     \<lparr>dt_date = 738890, dt_hour = h, dt_minute = m, dt_second = 0, dt_microsecond = 0\<rparr>"

text \<open>A clock reading: the day \<open>d\<close> at \<open>h:m\<close> and \<open>s\<close> seconds.\<close>

definition clock :: "int \<Rightarrow> nat \<Rightarrow> nat \<Rightarrow> nat \<Rightarrow> datetime" where
  "clock d h m s =
     \<lparr>dt_date = d, dt_hour = h, dt_minute = m, dt_second = s, dt_microsecond = 0\<rparr>"

text \<open>A store with one finished day, Tuesday 2024-01-02 from 09:00 to 17:00 with a lunch
  break of 30 minutes, as \<open>log_start\<close> and \<open>log_end\<close> leave it.\<close>

definition tuesday_done :: state where
  "tuesday_done =
     (let d = \<lparr>lunch_break_minutes = 30,
                entries = [(''2024-01-02'', \<lparr>start = Some ''09:00'', end_str = Some ''17:00'',
                                               hours_worked = Some (15/2),
                                               total_minutes = Some 450\<rparr>)]\<rparr>
      in \<lparr>data = d, data_file = Some d\<rparr>)"

text \<open>The store of a first run, and Tuesday 2024-01-02 in three stages: started at
  09:00; ended at 17:00 (\<open>tuesday_done\<close> above); and started again, at 10:00, after the
  end was logged.\<close>

definition empty_store :: state where
  "empty_store = \<lparr>data = \<lparr>lunch_break_minutes = 30, entries = []\<rparr>, data_file = None\<rparr>"

definition tuesday_started :: state where
  "tuesday_started =
     (let d = \<lparr>lunch_break_minutes = 30,
                entries = [(''2024-01-02'', \<lparr>start = Some ''09:00'', end_str = None,
                                               hours_worked = None, total_minutes = None\<rparr>)]\<rparr>
      in \<lparr>data = d, data_file = Some d\<rparr>)"

definition tuesday_restarted :: state where
  "tuesday_restarted =
     (let d = \<lparr>lunch_break_minutes = 30,
                entries = [(''2024-01-02'', \<lparr>start = Some ''10:00'', end_str = Some ''17:00'',
                                               hours_worked = Some (15/2),
                                               total_minutes = Some 450\<rparr>)]\<rparr>
      in \<lparr>data = d, data_file = Some d\<rparr>)"



text \<open>Tuesday finished from 09:00 to 17:00 with 450 minutes under a lunch break of 30
  minutes, and Wednesday started.\<close>

definition two_days :: state where
  "two_days =
     (let d = \<lparr>lunch_break_minutes = 30,
                entries = [(''2024-01-02'', \<lparr>start = Some ''09:00'', end_str = Some ''17:00'',
                                               hours_worked = Some (15/2),
                                               total_minutes = Some 450\<rparr>),
                           (''2024-01-03'', \<lparr>start = Some ''09:00'', end_str = None,
                                               hours_worked = None, total_minutes = None\<rparr>)]\<rparr>
      in \<lparr>data = d, data_file = Some d\<rparr>)"

section \<open>Verified properties\<close>

subsection \<open>Evaluating the calendar and the parsers\<close>

lemmas calendar_defs =
  strftime_date_def ord2ymd_def pad2_def pad4_def digit_char_def
  DAYS_BEFORE_MONTH_def DAYS_IN_MONTH_def weekday_def get_week_start_def Let_def

lemmas parse_defs =
  strptime_hm_def strptime_date_def strptime_datetime_def after_def before_def
  year_field_def month_field_def day_field_def hour_field_def minute_field_def
  digits_def is_digit_def dec_def digit_val_def days_in_month_def is_leap_def
  ymd2ord_def days_before_year_def days_before_month_def
  DAYS_BEFORE_MONTH_def DAYS_IN_MONTH_def Let_def

lemmas arith_defs =
  py_int_def round2_def round_half_even_def dt_minutes_def dt_less_def add_days_def
  compute_worked_def strftime_hm_def pad2_def digit_char_def Let_def

text \<open>The week from Monday 2024-01-01 (ordinal 738886) to Sunday 2024-01-07, and the
  Monday after it.\<close>

lemma example_week:
  "strftime_date 738886 = ''2024-01-01''" "strftime_date 738887 = ''2024-01-02''"
  "strftime_date 738888 = ''2024-01-03''" "strftime_date 738889 = ''2024-01-04''"
  "strftime_date 738890 = ''2024-01-05''" "strftime_date 738891 = ''2024-01-06''"
  "strftime_date 738892 = ''2024-01-07''" "strftime_date 738893 = ''2024-01-08''"
  by (simp_all add: calendar_defs)

lemma example_week_parsed:
  "strptime_date ''2024-01-01'' = Some 738886" "strptime_date ''2024-01-02'' = Some 738887"
  "strptime_date ''2024-01-03'' = Some 738888" "strptime_date ''2024-01-04'' = Some 738889"
  "strptime_date ''2024-01-05'' = Some 738890" "strptime_date ''2024-01-08'' = Some 738893"
  by (simp_all add: parse_defs)

lemma example_weekdays:
  "weekday 738886 = 0" "weekday 738887 = 1" "weekday 738888 = 2" "weekday 738890 = 4"
  "weekday 738893 = 0"
  by (simp_all add: weekday_def)

subsection \<open>The weekly total\<close>

lemma weekly_foldl:
  "foldl (week_day_step st w) (acc, ds) xs
   = (acc + sum_list (map (\<lambda>i. spec_day_hours st (w + int i)) xs),
      ds @ map (\<lambda>i. strftime_date (w + int i)) xs)"
  by (induction xs arbitrary: acc ds)
     (auto simp: week_day_step_def spec_day_hours_def Let_def split: option.splits)

lemma weekday_range: "0 \<le> weekday d \<and> weekday d < 7"
  by (simp add: weekday_def)

lemma weekday_week_start: "weekday (get_week_start d) = 0"
  unfolding get_week_start_def weekday_def by presburger

text \<open>
  Claim C4. For every store and every reference date, the weekly total is the sum, over
  the seven consecutive dates from the week start, of what each date contributes: the
  \<open>hours_worked\<close> of its entry, or 0 without an entry or without \<open>hours_worked\<close>. The
  week start is the reference date minus its weekday index, and it is a Monday.
\<close>

theorem get_weekly_hours_sum:
  "fst (get_weekly_hours st d) = (\<Sum>i<7. spec_day_hours st (get_week_start d + int i))
   \<and> snd (get_weekly_hours st d)
       = map (\<lambda>i. strftime_date (get_week_start d + int i)) [0..<7]
   \<and> get_week_start d = d - weekday d
   \<and> weekday (get_week_start d) = 0 \<and> 0 \<le> weekday d \<and> weekday d < 7"
proof -
  have "get_weekly_hours st d =
          (0 + sum_list (map (\<lambda>i. spec_day_hours st (get_week_start d + int i)) [0..<7]),
           [] @ map (\<lambda>i. strftime_date (get_week_start d + int i)) [0..<7])"
    unfolding get_weekly_hours_def Let_def by (rule weekly_foldl)
  moreover have "sum_list (map (\<lambda>i. spec_day_hours st (get_week_start d + int i)) [0..<7])
                 = (\<Sum>i<7. spec_day_hours st (get_week_start d + int i))"
    by (simp add: interv_sum_list_conv_sum_set_nat atLeast0LessThan)
  ultimately show ?thesis
    using weekday_range[of d] weekday_week_start[of d]
    by (simp add: get_week_start_def)
qed

text \<open>The example of the specification: Monday 7.0 and Tuesday 7.0 give 14.0, asked
  on Friday 2024-01-05 (ordinal 738890), whose week starts on ordinal 738886.\<close>

theorem get_weekly_hours_sum_witness:
  "get_week_start 738890 = 738886 \<and> fst (get_weekly_hours week_example 738890) = 14"
proof -
  have ws: "get_week_start 738890 = 738886"
    by (simp add: get_week_start_def weekday_def)
  have s: "(\<Sum>i<7. spec_day_hours week_example (738886 + int i)) = 14"
    by (simp add: eval_nat_numeral spec_day_hours_def week_example_def example_week)
  show ?thesis using get_weekly_hours_sum[of week_example 738890] ws s by simp
qed

subsection \<open>The projection of an active session\<close>

text \<open>What \<open>get_current_work_time\<close> returns for an active session whose start parses:
  the fields that the claims about the projection speak of.\<close>

lemma get_current_work_time_active:
  assumes "map_of (entries (data st)) (strftime_date (dt_date now)) = Some e"
    and "start e = Some s" and "end_str e = None"
    and "strptime_datetime (strftime_date (dt_date now)) s = Some t"
  shows "\<exists>info. get_current_work_time fl now st = Some info
           \<and> weekly_hours info = fst (get_weekly_hours st (dt_date now))
           \<and> lunch_minutes info = lunch_break_minutes (data st)
           \<and> show_35h_target info = (27 < weekly_hours info)
           \<and> total_work_minutes info =
               (let elapsed = py_int (dt_minutes now - dt_minutes t)
                in if 240 < elapsed then elapsed - lunch_break_minutes (data st) else elapsed)
           \<and> minutes_needed_for_35h info =
               (let elapsed = py_int (dt_minutes now - dt_minutes t);
                    worked = (if 240 < elapsed then elapsed - lunch_break_minutes (data st)
                              else elapsed);
                    needed = fl (fl (fl (35 - weekly_hours info) * 60) - of_int worked)
                in max 0 (py_int
                     (if elapsed \<le> 240 \<and> 27 < weekly_hours info \<and> 0 < needed
                      then fl (needed + of_int (lunch_break_minutes (data st))) else needed)))
           \<and> (time_to_leave_35h info = None) =
               (let elapsed = py_int (dt_minutes now - dt_minutes t);
                    worked = (if 240 < elapsed then elapsed - lunch_break_minutes (data st)
                              else elapsed);
                    needed = fl (fl (fl (35 - weekly_hours info) * 60) - of_int worked)
                in \<not> (27 < weekly_hours info \<and> 0 < needed))"
  using assms
  by (simp add: get_current_work_time_def get_lunch_break_minutes_def Let_def
           split: prod.splits)

lemma friday_session_weekly:
  "fst (get_weekly_hours (friday_session e h m) 738890) = 4 * h"
  by (simp add: get_weekly_hours_def week_day_step_def friday_session_def empty_entry_def
        get_week_start_def weekday_def example_week eval_nat_numeral Let_def)

lemma friday_session_today:
  "map_of (entries (data (friday_session e h m))) (strftime_date (dt_date (friday_at a b)))
     = Some (empty_entry\<lparr>start := Some ''09:00''\<rparr>)"
  by (simp add: friday_session_def friday_at_def example_week Let_def)

lemma friday_start_parsed:
  "strptime_datetime (strftime_date (dt_date (friday_at a b))) ''09:00''
     = Some (friday_at 9 0)"
  by (simp add: friday_at_def example_week example_week_parsed strptime_datetime_def)
     (simp add: parse_defs)

lemma friday_elapsed: "py_int (dt_minutes (friday_at 10 0) - dt_minutes (friday_at 9 0)) = 60"
  "py_int (dt_minutes (friday_at 10 10) - dt_minutes (friday_at 9 0)) = 70"
  by (simp_all add: friday_at_def arith_defs)

lemma friday_date: "dt_date (friday_at a b) = 738890"
  by (simp add: friday_at_def)

lemma friday_lunch: "lunch_break_minutes (data (friday_session e h m)) = 30"
  by (simp add: friday_session_def Let_def)

lemma friday_entry:
  "start (empty_entry\<lparr>start := Some ''09:00''\<rparr>) = Some ''09:00''"
  "end_str (empty_entry\<lparr>start := Some ''09:00''\<rparr>) = None"
  by (simp_all add: empty_entry_def)

text \<open>
  Claim C6. For every active session (today's entry has a start that parses and no
  end), the projection is returned, its weekly hours are the weekly total of the stored
  entries, and the 35-hour target is shown exactly when these weekly hours exceed 27.
\<close>

theorem show_35h_target_gate:
  assumes "map_of (entries (data st)) (strftime_date (dt_date now)) = Some e"
    and "start e = Some s" and "end_str e = None"
    and "strptime_datetime (strftime_date (dt_date now)) s = Some t"
  shows "\<exists>info. get_current_work_time fl now st = Some info
           \<and> weekly_hours info = fst (get_weekly_hours st (dt_date now))
           \<and> show_35h_target info = (27 < weekly_hours info)"
  using get_current_work_time_active[OF assms, of fl] by auto

text \<open>The examples of the specification: 26 weekly hours hide the target, 28 show it.
  (Here and below the examples take the identity for the rounding: the hours of the
  examples are whole or half hours, and every value that the projection computes from
  them and that the examples state is a whole number, which floating point represents
  exactly.)\<close>

theorem show_35h_target_gate_witness:
  "(\<exists>info. get_current_work_time (\<lambda>x. x) (friday_at 10 0) (friday_session ''16:30'' 7 420)
              = Some info
       \<and> weekly_hours info = 28 \<and> show_35h_target info)
   \<and> (\<exists>info. get_current_work_time (\<lambda>x. x) (friday_at 10 0)
                (friday_session ''16:00'' (13/2) 390)
              = Some info
       \<and> weekly_hours info = 26 \<and> \<not> show_35h_target info)"
proof -
  have a: "\<exists>info. get_current_work_time (\<lambda>x. x) (friday_at 10 0)
                     (friday_session ''16:30'' 7 420) = Some info
             \<and> weekly_hours info = 28 \<and> show_35h_target info"
    using show_35h_target_gate[OF friday_session_today[of "''16:30''" 7 420 10 0]
            friday_entry friday_start_parsed[of 10 0], of "\<lambda>x. x"]
    by (auto simp: friday_session_weekly friday_date)
  have b: "\<exists>info. get_current_work_time (\<lambda>x. x) (friday_at 10 0)
                     (friday_session ''16:00'' (13/2) 390) = Some info
             \<and> weekly_hours info = 26 \<and> \<not> show_35h_target info"
    using show_35h_target_gate[OF friday_session_today[of "''16:00''" "13/2" 390 10 0]
            friday_entry friday_start_parsed[of 10 0], of "\<lambda>x. x"]
    by (auto simp: friday_session_weekly friday_date)
  from a b show ?thesis by blast
qed

text \<open>
  Claim C7, as amended. For every active session, the minutes worked so far are the
  elapsed minutes, less the whole lunch break once the elapsed minutes exceed 240 (a
  step, never prorated). The minutes needed for the 35-hour week are computed in
  floating point from the weekly hours that the projection reports, as
  \<open>(35 - weekly_hours) * 60 - worked\<close>, each operation rounded. The lunch break is added
  to them only when the elapsed minutes are at most 240, the weekly hours exceed 27 and
  the needed minutes before the addition are positive; otherwise nothing is added. The
  projection reports the result truncated towards zero and not below 0. This holds
  whatever the rounding \<open>fl\<close> of the floating-point operations is.
\<close>

theorem lunch_step_and_needed_minutes:
  assumes "map_of (entries (data st)) (strftime_date (dt_date now)) = Some e"
    and "start e = Some s" and "end_str e = None"
    and "strptime_datetime (strftime_date (dt_date now)) s = Some t"
    and "elapsed = py_int (dt_minutes now - dt_minutes t)"
    and "L = lunch_break_minutes (data st)"
    and "worked = (if 240 < elapsed then elapsed - L else elapsed)"
  shows "\<exists>info. get_current_work_time fl now st = Some info
           \<and> total_work_minutes info = worked
           \<and> lunch_minutes info = L
           \<and> minutes_needed_for_35h info =
               (let needed = fl (fl (fl (35 - weekly_hours info) * 60) - of_int worked)
                in max 0 (py_int (if elapsed \<le> 240 \<and> 27 < weekly_hours info \<and> 0 < needed
                                  then fl (needed + of_int L) else needed)))"
  using get_current_work_time_active[OF assms(1-4), of fl]
  unfolding assms(7) assms(6) assms(5) Let_def
  by blast

text \<open>Friday at 10:00 after four days of seven hours: 60 minutes elapsed and worked,
  28 weekly hours, \<open>7 * 60 - 60 = 360\<close> minutes needed, and the lunch break of 30
  added.\<close>

theorem lunch_step_and_needed_minutes_witness:
  "\<exists>info. get_current_work_time (\<lambda>x. x) (friday_at 10 0) (friday_session ''16:30'' 7 420)
            = Some info
       \<and> total_work_minutes info = 60 \<and> weekly_hours info = 28
       \<and> minutes_needed_for_35h info = 390"
proof -
  from get_current_work_time_active[OF friday_session_today[of "''16:30''" 7 420 10 0]
          friday_entry friday_start_parsed[of 10 0], of "\<lambda>x. x"]
  have w: "\<And>info. get_current_work_time (\<lambda>x. x) (friday_at 10 0)
                    (friday_session ''16:30'' 7 420) = Some info \<Longrightarrow> weekly_hours info = 28"
    by (auto simp: friday_session_weekly friday_date)
  from lunch_step_and_needed_minutes[OF friday_session_today[of "''16:30''" 7 420 10 0]
          friday_entry friday_start_parsed[of 10 0] friday_elapsed(1)[symmetric]
          friday_lunch[of "''16:30''" 7 420, symmetric] refl, of "\<lambda>x. x"]
  obtain info where
    i: "get_current_work_time (\<lambda>x. x) (friday_at 10 0) (friday_session ''16:30'' 7 420)
          = Some info"
    and t: "total_work_minutes info = 60"
    and n: "minutes_needed_for_35h info =
               (let needed = (35 - weekly_hours info) * 60 - of_int (60::int)
                in max 0 (py_int (if (60::int) \<le> 240 \<and> 27 < weekly_hours info \<and> 0 < needed
                                  then needed + of_int (30::int) else needed)))"
    by auto
  from n w[OF i] have "minutes_needed_for_35h info = 390"
    by (simp add: py_int_def)
  with i t w[OF i] show ?thesis by blast
qed

text \<open>
  Claim C7 as stated fails: on Friday at 10:10, after four days of 8.5 hours, 70 minutes
  have elapsed (at most 240), the weekly hours are 34 and
  \<open>35 * 60 - 34 * 60 - 70 = -10\<close>; increased by the lunch break of 30 this would be 20
  minutes still needed, but the projection reports 0 and no leave time, since the break
  is only added to a positive value.
\<close>

theorem lunch_not_added_counterexample:
  "map_option total_work_minutes
       (get_current_work_time (\<lambda>x. x) (friday_at 10 10) (friday_session ''18:00'' (17/2) 510))
       = Some 70
   \<and> map_option weekly_hours
       (get_current_work_time (\<lambda>x. x) (friday_at 10 10) (friday_session ''18:00'' (17/2) 510))
       = Some 34
   \<and> map_option lunch_minutes
       (get_current_work_time (\<lambda>x. x) (friday_at 10 10) (friday_session ''18:00'' (17/2) 510))
       = Some 30
   \<and> map_option show_35h_target
       (get_current_work_time (\<lambda>x. x) (friday_at 10 10) (friday_session ''18:00'' (17/2) 510))
       = Some True
   \<and> map_option minutes_needed_for_35h
       (get_current_work_time (\<lambda>x. x) (friday_at 10 10) (friday_session ''18:00'' (17/2) 510))
       = Some 0
   \<and> map_option time_to_leave_35h
       (get_current_work_time (\<lambda>x. x) (friday_at 10 10) (friday_session ''18:00'' (17/2) 510))
       = Some None
   \<and> max 0 (py_int (35 * 60 - 34 * 60 - 70 + 30)) = 20"
proof -
  from get_current_work_time_active[OF friday_session_today[of "''18:00''" "17/2" 510 10 10]
          friday_entry friday_start_parsed[of 10 10], of "\<lambda>x. x"]
  obtain info where
    "get_current_work_time (\<lambda>x. x) (friday_at 10 10) (friday_session ''18:00'' (17/2) 510)
       = Some info"
    "weekly_hours info = 34" "lunch_minutes info = 30" "show_35h_target info"
    "total_work_minutes info = 70" "minutes_needed_for_35h info = 0"
    "time_to_leave_35h info = None"
    unfolding friday_elapsed friday_date friday_session_weekly friday_lunch Let_def
    by (auto simp: py_int_def)
  then show ?thesis by (simp add: py_int_def)
qed

subsection \<open>Worked time\<close>

lemma py_int_of_int: "py_int (of_int k) = k"
  by (simp add: py_int_def)

text \<open>The block of \<open>compute_worked\<close> on two times of the same date that carry no
  seconds, as \<open>strptime\<close> returns them, is the worked time of the specification.\<close>

lemma compute_worked_same_date:
  "compute_worked
     \<lparr>dt_date = d, dt_hour = sh, dt_minute = sm, dt_second = 0, dt_microsecond = 0\<rparr>
     \<lparr>dt_date = d, dt_hour = eh, dt_minute = em, dt_second = 0, dt_microsecond = 0\<rparr> L
   = (spec_hours_worked (spec_total_minutes (sh, sm) (eh, em) L),
      spec_total_minutes (sh, sm) (eh, em) L)"
proof -
  let ?s = "int (sh * 60 + sm)" and ?e = "int (eh * 60 + em)"
  let ?span = "if ?e < ?s then ?e + 1440 - ?s else ?e - ?s"
  have less: "dt_less
     \<lparr>dt_date = d, dt_hour = eh, dt_minute = em, dt_second = 0, dt_microsecond = 0\<rparr>
     \<lparr>dt_date = d, dt_hour = sh, dt_minute = sm, dt_second = 0, dt_microsecond = 0\<rparr>
     = (?e < ?s)"
  proof -
    have "(real eh * 60 + real em < real sh * 60 + real sm)
            = (real (eh * 60 + em) < real (sh * 60 + sm))"
      by simp
    also have "\<dots> = (eh * 60 + em < sh * 60 + sm)"
      by (simp only: of_nat_less_iff)
    also have "\<dots> = (?e < ?s)"
      by (simp only: of_nat_less_iff)
    finally show ?thesis by (simp add: dt_less_def dt_minutes_def)
  qed
  have diff: "dt_minutes (if ?e < ?s
       then add_days \<lparr>dt_date = d, dt_hour = eh, dt_minute = em, dt_second = 0,
                        dt_microsecond = 0\<rparr> 1
       else \<lparr>dt_date = d, dt_hour = eh, dt_minute = em, dt_second = 0, dt_microsecond = 0\<rparr>)
     - dt_minutes \<lparr>dt_date = d, dt_hour = sh, dt_minute = sm, dt_second = 0,
                    dt_microsecond = 0\<rparr>
     = of_int ?span"
    by (simp add: dt_minutes_def add_days_def algebra_simps)
  have "of_int ?span - (of_int L :: real) = of_int (?span - L)" by simp
  then show ?thesis
    unfolding compute_worked_def Let_def less diff spec_total_minutes_def spec_hours_worked_def
    by (simp only: py_int_of_int fst_conv snd_conv)
qed

lemma strptime_datetime_Some:
  "strptime_date k = Some d \<Longrightarrow> strptime_hm s = Some (h, m) \<Longrightarrow>
   strptime_datetime k s
     = Some \<lparr>dt_date = d, dt_hour = h, dt_minute = m, dt_second = 0, dt_microsecond = 0\<rparr>"
  by (simp add: strptime_datetime_def)

lemma strptime_date_not_empty: "strptime_date [] = None"
  by (simp add: strptime_date_def after_def)

lemma strptime_date_not_settings: "strptime_date ''settings'' = None"
  by (simp add: strptime_date_def after_def)

lemma work_entries_nonempty:
  "map_of (entries (data st)) k = Some e \<Longrightarrow> k \<noteq> ''settings'' \<Longrightarrow> work_entries st \<noteq> []"
proof -
  assume a: "map_of (entries (data st)) k = Some e" and b: "k \<noteq> ''settings''"
  from a have "(k, e) \<in> set (entries (data st))" by (rule map_of_SomeD)
  with b have "(k, e) \<in> set (work_entries st)" by (simp add: work_entries_def)
  then show ?thesis by auto
qed

subsection \<open>Runs on the example states\<close>

lemmas run_defs =
  log_start_def log_end_def edit_past_day_def delete_day_def work_entries_def
  is_first_monday_input_def clear_previous_entries_def resolve_time_def
  setdefault_entry_def save_data_def set_entries_def get_lunch_break_minutes_def
  empty_entry_def clock_def

lemma example_times:
  "strptime_hm ''09:00'' = Some (9, 0)" "strptime_hm ''10:00'' = Some (10, 0)"
  "strptime_hm ''17:00'' = Some (17, 0)" "strptime_hm ''23:00'' = Some (23, 0)"
  "strptime_hm ''01:00'' = Some (1, 0)" "strptime_hm ''16:30'' = Some (16, 30)"
  "strptime_hm ''25:00'' = None" "strptime_hm [] = None"
  by (simp_all add: parse_defs)

lemma example_worked:
  "spec_total_minutes (9, 0) (17, 0) 30 = 450" "spec_hours_worked 450 = 15 / 2"
  "spec_total_minutes (10, 0) (17, 0) 30 = 390" "spec_hours_worked 390 = 13 / 2"
  "spec_total_minutes (23, 0) (1, 0) 30 = 90" "spec_hours_worked 90 = 3 / 2"
  "spec_total_minutes (9, 0) (17, 0) 60 = 420" "spec_hours_worked 420 = 7"
  "spec_total_minutes (9, 0) (16, 30) 30 = 420"
  "spec_total_minutes (9, 0) (16, 30) 60 = 390"
  by (simp_all add: spec_total_minutes_def spec_hours_worked_def round2_def
        round_half_even_def Let_def)

text \<open>Tuesday 2024-01-02 (ordinal 738887): the start is logged at 09:00, the end at
  17:00, and then the start again at 10:00.\<close>

lemma tuesday_runs:
  "log_start (clock 738887 8 55 12) (Some ''09:00'') empty_store = (Logged, tuesday_started)"
  "log_end (clock 738887 17 1 40) (Some ''17:00'') tuesday_started = (Logged, tuesday_done)"
  "log_start (clock 738887 17 5 0) (Some ''10:00'') tuesday_done = (Logged, tuesday_restarted)"
  by (simp_all add: run_defs example_weekdays example_week example_week_parsed example_times
        empty_store_def tuesday_started_def tuesday_done_def tuesday_restarted_def
        strptime_datetime_Some compute_worked_same_date example_worked
        strftime_hm_def pad2_def digit_char_def Let_def)

subsection \<open>Editing and deleting a day\<close>

lemma map_of_update_other:
  "k \<noteq> k' \<Longrightarrow> map_of (AList.update k' v es) k = map_of es k"
  by (simp add: update_conv')

lemma map_of_update_same: "map_of (AList.update k v es) k = Some v"
  by (simp add: update_conv')

text \<open>
  Claim C9, as amended. For every store and every well-formed date with no stored entry:
  delete-day reports that no entry was found (or, when the store holds no entry at
  all, that there are no work logs) and leaves the memory and the file as they were.
  Edit-day does not fail: when the store holds no entry at all it stops with the
  message that there are no work logs and changes nothing; otherwise it creates an entry
  for the date, empty when both prompts are left empty, keeps every other entry, and
  writes the store to the file.
\<close>

theorem absent_date_delete_and_edit:
  assumes "map_of (entries (data st)) date_input = None"
    and "strptime_date date_input = Some d"
  shows "delete_day date_input confirm st
           = ((if work_entries st = [] then NoWorkLogs else EntryNotFound), st)
       \<and> (work_entries st = [] \<longrightarrow>
             edit_past_day date_input new_start new_end st = (NoWorkLogs, st))
       \<and> (work_entries st \<noteq> [] \<longrightarrow>
             fst (edit_past_day date_input new_start new_end st) = ChangesSaved
           \<and> map_of (entries (data (snd (edit_past_day date_input new_start new_end st))))
                date_input \<noteq> None
           \<and> (\<forall>k. k \<noteq> date_input \<longrightarrow>
                 map_of (entries (data (snd (edit_past_day date_input new_start new_end st)))) k
                 = map_of (entries (data st)) k)
           \<and> data_file (snd (edit_past_day date_input new_start new_end st))
               = Some (data (snd (edit_past_day date_input new_start new_end st)))
           \<and> edit_past_day date_input [] [] st
               = (ChangesSaved,
                  save_data (set_entries
                    (AList.update date_input empty_entry (entries (data st))) st)))"
proof -
  from assms(2) have ne: "date_input \<noteq> []"
    using strptime_date_not_empty by auto
  have del: "delete_day date_input confirm st
           = ((if work_entries st = [] then NoWorkLogs else EntryNotFound), st)"
    using assms(1) ne by (simp add: delete_day_def)
  have ed0: "work_entries st = [] \<longrightarrow>
             edit_past_day date_input new_start new_end st = (NoWorkLogs, st)"
    by (simp add: edit_past_day_def)
  have upd: "AList.update date_input x (AList.update date_input y es)
               = AList.update date_input x es" for x y es
    by (induction es) auto
  have ed1: "work_entries st \<noteq> [] \<Longrightarrow>
             fst (edit_past_day date_input new_start new_end st) = ChangesSaved
           \<and> map_of (entries (data (snd (edit_past_day date_input new_start new_end st))))
                date_input \<noteq> None
           \<and> (\<forall>k. k \<noteq> date_input \<longrightarrow>
                 map_of (entries (data (snd (edit_past_day date_input new_start new_end st)))) k
                 = map_of (entries (data st)) k)
           \<and> data_file (snd (edit_past_day date_input new_start new_end st))
               = Some (data (snd (edit_past_day date_input new_start new_end st)))"
    using assms ne
    by (auto simp: edit_past_day_def setdefault_entry_def empty_entry_def Let_def
          strptime_datetime_def save_data_def set_entries_def get_lunch_break_minutes_def
          update_conv' upd
        split: prod.splits option.splits)
  have ed2: "work_entries st \<noteq> [] \<Longrightarrow> edit_past_day date_input [] [] st
               = (ChangesSaved,
                  save_data (set_entries
                    (AList.update date_input empty_entry (entries (data st))) st))"
    using assms ne
    by (simp add: edit_past_day_def setdefault_entry_def empty_entry_def Let_def upd
          set_entries_def)
  from del ed0 ed1 ed2 show ?thesis by blast
qed

lemma set_entries_same: "set_entries (entries (data st)) st = st"
  by (simp add: set_entries_def)

text \<open>
  Claim C10, as amended. For an existing entry of a well-formed date, edit-day with
  both prompts left empty always writes the store to the file. An entry without start or
  without end is left as it is. An entry with start and end gets \<open>hours_worked\<close> and
  \<open>total_minutes\<close> recomputed from them and the current lunch break; it is therefore
  unchanged exactly when its derived fields already hold these values.
\<close>

theorem edit_day_empty_prompts:
  assumes "map_of (entries (data st)) date_input = Some e"
    and "strptime_date date_input = Some d"
  shows "(start e = None \<or> end_str e = None \<longrightarrow>
            edit_past_day date_input [] [] st = (ChangesSaved, save_data st))
       \<and> (\<forall>s t sh sm eh em.
            start e = Some s \<and> end_str e = Some t
            \<and> strptime_hm s = Some (sh, sm) \<and> strptime_hm t = Some (eh, em) \<longrightarrow>
              edit_past_day date_input [] [] st
                = (ChangesSaved,
                   save_data (set_entries
                     (AList.update date_input
                        (e\<lparr>hours_worked := Some (spec_hours_worked
                               (spec_total_minutes (sh, sm) (eh, em)
                                  (lunch_break_minutes (data st)))),
                           total_minutes := Some (spec_total_minutes (sh, sm) (eh, em)
                                  (lunch_break_minutes (data st)))\<rparr>)
                        (entries (data st))) st))
            \<and> (hours_worked e = Some (spec_hours_worked
                               (spec_total_minutes (sh, sm) (eh, em)
                                  (lunch_break_minutes (data st))))
               \<and> total_minutes e = Some (spec_total_minutes (sh, sm) (eh, em)
                                  (lunch_break_minutes (data st))) \<longrightarrow>
                 edit_past_day date_input [] [] st = (ChangesSaved, save_data st)))"
proof -
  from assms(2) have ne: "date_input \<noteq> []" and ns: "date_input \<noteq> ''settings''"
    using strptime_date_not_empty strptime_date_not_settings by auto
  from work_entries_nonempty[OF assms(1) ns] have we: "work_entries st \<noteq> []" .
  have upd: "AList.update date_input x (AList.update date_input y es)
               = AList.update date_input x es" for x y es
    by (induction es) auto
  have triv: "AList.update date_input e (entries (data st)) = entries (data st)"
    using assms(1) by (rule update_triv)
  have a: "start e = None \<or> end_str e = None \<Longrightarrow>
            edit_past_day date_input [] [] st = (ChangesSaved, save_data st)"
    using assms we ne
    by (auto simp: edit_past_day_def setdefault_entry_def Let_def triv set_entries_same
          split: option.splits)
  have b: "edit_past_day date_input [] [] st
                = (ChangesSaved,
                   save_data (set_entries
                     (AList.update date_input
                        (e\<lparr>hours_worked := Some (spec_hours_worked
                               (spec_total_minutes (sh, sm) (eh, em)
                                  (lunch_break_minutes (data st)))),
                           total_minutes := Some (spec_total_minutes (sh, sm) (eh, em)
                                  (lunch_break_minutes (data st)))\<rparr>)
                        (entries (data st))) st))"
    if "start e = Some s" "end_str e = Some t"
       "strptime_hm s = Some (sh, sm)" "strptime_hm t = Some (eh, em)"
    for s t sh sm eh em
    using assms we ne that
    by (simp add: edit_past_day_def setdefault_entry_def Let_def triv set_entries_same
          strptime_datetime_Some compute_worked_same_date get_lunch_break_minutes_def)
  have c: "e\<lparr>hours_worked := Some h, total_minutes := Some m\<rparr> = e"
    if "hours_worked e = Some h" "total_minutes e = Some m" for h m
    using that by simp
  show ?thesis
    using a b c[THEN arg_cong, of _ _ "\<lambda>x. AList.update date_input x (entries (data st))"]
    by (simp add: triv set_entries_same)
qed

lemma tuesday_done_lookup:
  "map_of (entries (data tuesday_done)) ''2024-01-03'' = None"
  "map_of (entries (data tuesday_done)) ''2024-01-02''
     = Some \<lparr>start = Some ''09:00'', end_str = Some ''17:00'',
             hours_worked = Some (15/2), total_minutes = Some 450\<rparr>"
  "work_entries tuesday_done \<noteq> []"
  "lunch_break_minutes (data tuesday_done) = 30"
  "save_data tuesday_done = tuesday_done"
  by (simp_all add: tuesday_done_def work_entries_def save_data_def Let_def)

text \<open>On the store that holds Tuesday only, Wednesday 2024-01-03 has no entry:
  deleting it finds no entry and changes nothing, editing it succeeds.\<close>

theorem absent_date_delete_and_edit_witness:
  "delete_day ''2024-01-03'' ''y'' tuesday_done = (EntryNotFound, tuesday_done)
   \<and> fst (edit_past_day ''2024-01-03'' ''09:00'' [] tuesday_done) = ChangesSaved
   \<and> map_of (entries (data (snd (edit_past_day ''2024-01-03'' ''09:00'' [] tuesday_done))))
        ''2024-01-03'' \<noteq> None"
  using absent_date_delete_and_edit[OF tuesday_done_lookup(1) example_week_parsed(3),
          of "''y''" "''09:00''" "[]"]
  by (simp add: tuesday_done_lookup(3))

text \<open>
  Claim C9 as stated fails for edit-day: on the same store, editing Wednesday with both
  prompts left empty reports that the changes were saved, and an empty entry for
  Wednesday is now in memory and in the file.
\<close>

theorem edit_absent_date_counterexample:
  "map_of (entries (data tuesday_done)) ''2024-01-03'' = None
   \<and> strptime_date ''2024-01-03'' = Some 738888
   \<and> fst (edit_past_day ''2024-01-03'' [] [] tuesday_done) = ChangesSaved
   \<and> map_of (entries (data (snd (edit_past_day ''2024-01-03'' [] [] tuesday_done))))
        ''2024-01-03'' = Some empty_entry
   \<and> data_file (snd (edit_past_day ''2024-01-03'' [] [] tuesday_done))
        \<noteq> data_file tuesday_done"
  by (simp add: run_defs tuesday_done_def example_week_parsed Let_def)

text \<open>Tuesday as \<open>log_start\<close> and \<open>log_end\<close> left it, edited with both prompts empty, is
  unchanged in memory and in the file.\<close>

theorem edit_day_empty_prompts_witness:
  "edit_past_day ''2024-01-02'' [] [] tuesday_done = (ChangesSaved, tuesday_done)"
proof -
  have "start \<lparr>start = Some ''09:00'', end_str = Some ''17:00'',
               hours_worked = Some (15/2), total_minutes = Some 450\<rparr> = Some ''09:00''
      \<and> end_str \<lparr>start = Some ''09:00'', end_str = Some ''17:00'',
               hours_worked = Some (15/2), total_minutes = Some 450\<rparr> = Some ''17:00''
      \<and> strptime_hm ''09:00'' = Some (9, 0) \<and> strptime_hm ''17:00'' = Some (17, 0)"
    by (simp add: example_times)
  moreover have
     "hours_worked \<lparr>start = Some ''09:00'', end_str = Some ''17:00'',
               hours_worked = Some (15/2), total_minutes = Some 450\<rparr>
        = Some (spec_hours_worked (spec_total_minutes (9, 0) (17, 0)
                  (lunch_break_minutes (data tuesday_done))))
      \<and> total_minutes \<lparr>start = Some ''09:00'', end_str = Some ''17:00'',
               hours_worked = Some (15/2), total_minutes = Some 450\<rparr>
        = Some (spec_total_minutes (9, 0) (17, 0) (lunch_break_minutes (data tuesday_done)))"
    by (simp add: example_worked tuesday_done_lookup(4))
  ultimately show ?thesis
    using edit_day_empty_prompts[OF tuesday_done_lookup(2) example_week_parsed(2)]
    unfolding tuesday_done_lookup(5) by blast
qed

text \<open>
  Claim C10 as stated fails: after the start of a finished Tuesday is logged again at
  10:00, the entry still carries 7.5 hours and 450 minutes; edit-day with both prompts
  left empty then changes the derived fields to 6.5 hours and 390 minutes.
\<close>

theorem edit_day_empty_prompts_counterexample:
  "log_start (clock 738887 17 5 0) (Some ''10:00'') tuesday_done = (Logged, tuesday_restarted)
   \<and> map_of (entries (data tuesday_restarted)) ''2024-01-02''
       = Some \<lparr>start = Some ''10:00'', end_str = Some ''17:00'',
               hours_worked = Some (15/2), total_minutes = Some 450\<rparr>
   \<and> fst (edit_past_day ''2024-01-02'' [] [] tuesday_restarted) = ChangesSaved
   \<and> map_of (entries (data (snd (edit_past_day ''2024-01-02'' [] [] tuesday_restarted))))
        ''2024-01-02''
       = Some \<lparr>start = Some ''10:00'', end_str = Some ''17:00'',
               hours_worked = Some (13/2), total_minutes = Some 390\<rparr>"
  by (simp add: tuesday_runs)
     (simp add: run_defs tuesday_restarted_def example_week_parsed example_times
        strptime_datetime_Some compute_worked_same_date example_worked Let_def)

subsection \<open>Logging the start and the end of a day\<close>

lemma resolve_time_date: "resolve_time now time_str = Some t \<Longrightarrow> dt_date t = dt_date now"
  by (auto simp: resolve_time_def split: option.splits if_splits)

lemma first_monday_iff:
  "is_first_monday_input st d =
     (weekday d = 0 \<and> (map_of (entries (data st)) (strftime_date d) = None
                        \<or> map_of (entries (data st)) (strftime_date d) = Some empty_entry))"
  by (auto simp: is_first_monday_input_def Let_def split: option.splits)

lemma cleared:
  "entries (data (clear_previous_entries st)) = []"
  "lunch_break_minutes (data (clear_previous_entries st)) = lunch_break_minutes (data st)"
  "data_file (clear_previous_entries st) = Some ((data st)\<lparr>entries := []\<rparr>)"
  by (simp_all add: clear_previous_entries_def save_data_def set_entries_def)

text \<open>
  Claim C2, as amended. When a start is logged on a Monday for which no entry or only an
  empty entry exists, every stored date entry is removed and the settings are kept; if
  the time is absent or parses as HH:MM, the store afterwards holds the settings and the
  new Monday entry only, in memory and in the file. (A time that does not parse leaves
  the cleared store without a Monday entry.) Logging a start on another day, or on a
  Monday that has a non-empty entry, removes nothing: every other date keeps its entry,
  today's entry keeps its end and its derived fields, and the settings are kept.
\<close>

theorem log_start_rollover:
  assumes "today = strftime_date (dt_date now)"
  shows "(weekday (dt_date now) = 0
           \<and> (map_of (entries (data st)) today = None
               \<or> map_of (entries (data st)) today = Some empty_entry) \<longrightarrow>
             entries (data (clear_previous_entries st)) = []
           \<and> lunch_break_minutes (data (clear_previous_entries st))
               = lunch_break_minutes (data st)
           \<and> (\<forall>t. resolve_time now time_str = Some t \<longrightarrow>
                 log_start now time_str st
                 = (Logged,
                    save_data (set_entries
                      [(today, empty_entry\<lparr>start := Some (strftime_hm t)\<rparr>)] st)))
           \<and> (resolve_time now time_str = None \<longrightarrow>
                 log_start now time_str st = (InvalidTimeFormat, clear_previous_entries st)))
       \<and> (weekday (dt_date now) \<noteq> 0
           \<or> (\<exists>e. map_of (entries (data st)) today = Some e \<and> e \<noteq> empty_entry) \<longrightarrow>
             lunch_break_minutes (data (snd (log_start now time_str st)))
               = lunch_break_minutes (data st)
           \<and> (\<forall>k. k \<noteq> today \<longrightarrow>
                 map_of (entries (data (snd (log_start now time_str st)))) k
                 = map_of (entries (data st)) k)
           \<and> (\<forall>e. map_of (entries (data st)) today = Some e \<longrightarrow>
                 (\<exists>e'. map_of (entries (data (snd (log_start now time_str st)))) today = Some e'
                       \<and> end_str e' = end_str e \<and> hours_worked e' = hours_worked e
                       \<and> total_minutes e' = total_minutes e)))"
proof -
  have roll: "log_start now time_str st
                 = (Logged,
                    save_data (set_entries
                      [(today, empty_entry\<lparr>start := Some (strftime_hm t)\<rparr>)] st))"
    if "is_first_monday_input st (dt_date now)" "resolve_time now time_str = Some t" for t
    using that resolve_time_date[OF that(2)] assms
    by (simp add: log_start_def cleared setdefault_entry_def Let_def)
       (simp add: clear_previous_entries_def save_data_def set_entries_def)
  have bad: "log_start now time_str st = (InvalidTimeFormat, clear_previous_entries st)"
    if "is_first_monday_input st (dt_date now)" "resolve_time now time_str = None"
    using that by (simp add: log_start_def)
  have keep: "lunch_break_minutes (data (snd (log_start now time_str st)))
               = lunch_break_minutes (data st)
           \<and> (\<forall>k. k \<noteq> today \<longrightarrow>
                 map_of (entries (data (snd (log_start now time_str st)))) k
                 = map_of (entries (data st)) k)
           \<and> (\<forall>e. map_of (entries (data st)) today = Some e \<longrightarrow>
                 (\<exists>e'. map_of (entries (data (snd (log_start now time_str st)))) today = Some e'
                       \<and> end_str e' = end_str e \<and> hours_worked e' = hours_worked e
                       \<and> total_minutes e' = total_minutes e))"
    if "\<not> is_first_monday_input st (dt_date now)"
  proof (cases "resolve_time now time_str")
    case None
    with that show ?thesis by (simp add: log_start_def)
  next
    case (Some t)
    with that resolve_time_date[OF Some] assms show ?thesis
      by (auto simp: log_start_def setdefault_entry_def Let_def save_data_def set_entries_def
            update_conv' split: option.splits)
  qed
  show ?thesis
    using roll bad keep cleared(1,2)[of st] unfolding first_monday_iff assms
    by (intro conjI impI allI) auto
qed

lemma monday_after:
  "weekday (dt_date (clock 738893 h m s)) = 0"
  "strftime_date (dt_date (clock 738893 h m s)) = ''2024-01-08''"
  "map_of (entries (data week_example)) ''2024-01-08'' = None"
  "resolve_time (clock 738893 8 55 12) (Some ''09:00'') = Some (clock 738893 9 0 0)"
  "strftime_hm (clock 738893 9 0 0) = ''09:00''"
  by (simp_all add: clock_def example_weekdays example_week week_example_def resolve_time_def
        example_times strftime_hm_def pad2_def digit_char_def)

text \<open>Monday 2024-01-08 after the example week: logging the start at 09:00 leaves the
  settings and the Monday entry only. On Wednesday 2024-01-03, logging a start on the
  store that holds Tuesday keeps Tuesday's entry.\<close>

theorem log_start_rollover_witness:
  "log_start (clock 738893 8 55 12) (Some ''09:00'') week_example
     = (Logged,
        \<lparr>data = \<lparr>lunch_break_minutes = 30,
                  entries = [(''2024-01-08'', \<lparr>start = Some ''09:00'', end_str = None,
                               hours_worked = None, total_minutes = None\<rparr>)]\<rparr>,
          data_file = Some \<lparr>lunch_break_minutes = 30,
                  entries = [(''2024-01-08'', \<lparr>start = Some ''09:00'', end_str = None,
                               hours_worked = None, total_minutes = None\<rparr>)]\<rparr>\<rparr>)
   \<and> map_of (entries (data (snd (log_start (clock 738888 8 55 12) (Some ''09:00'')
                                    tuesday_done)))) ''2024-01-02''
       = map_of (entries (data tuesday_done)) ''2024-01-02''"
proof -
  have a: "log_start (clock 738893 8 55 12) (Some ''09:00'') week_example
     = (Logged,
        save_data (set_entries
          [(''2024-01-08'', empty_entry\<lparr>start := Some ''09:00''\<rparr>)] week_example))"
    using log_start_rollover[OF monday_after(2)[symmetric, of 8 55 12],
            of week_example "Some ''09:00''"]
    by (simp add: monday_after)
  have w: "weekday (dt_date (clock 738888 8 55 12)) \<noteq> 0"
    and d: "strftime_date (dt_date (clock 738888 8 55 12)) = ''2024-01-03''"
    by (simp_all add: clock_def example_weekdays example_week)
  have b: "map_of (entries (data (snd (log_start (clock 738888 8 55 12) (Some ''09:00'')
                                    tuesday_done)))) ''2024-01-02''
       = map_of (entries (data tuesday_done)) ''2024-01-02''"
    using log_start_rollover[OF d[symmetric], of tuesday_done "Some ''09:00''"] w
    by simp
  from a b show ?thesis
    by (simp add: save_data_def set_entries_def week_example_def empty_entry_def)
qed

text \<open>
  Claim C2 as stated fails when the time does not parse: on the same Monday, a start
  logged as 25:00 clears the entries of the example week and is then refused, so the
  store holds the settings and no Monday entry.
\<close>

theorem log_start_rollover_counterexample:
  "weekday (dt_date (clock 738893 8 55 12)) = 0
   \<and> map_of (entries (data week_example)) (strftime_date (dt_date (clock 738893 8 55 12)))
       = None
   \<and> log_start (clock 738893 8 55 12) (Some ''25:00'') week_example
       = (InvalidTimeFormat,
          \<lparr>data = \<lparr>lunch_break_minutes = 30, entries = []\<rparr>,
            data_file = Some \<lparr>lunch_break_minutes = 30, entries = []\<rparr>\<rparr>)"
  by (simp add: monday_after)
     (simp add: run_defs example_weekdays example_week example_times week_example_def)

text \<open>When \<open>log_end\<close> answers that the start is missing: the time is absent or parses,
  and today has no entry or an entry without start.\<close>

lemma log_end_missing_start_iff:
  "(fst (log_end now time_str st) = MissingStart) =
     (resolve_time now time_str \<noteq> None
      \<and> (case map_of (entries (data st)) (strftime_date (dt_date now)) of
            None \<Rightarrow> True | Some e \<Rightarrow> start e = None))"
proof (cases "resolve_time now time_str")
  case None
  then show ?thesis by (simp add: log_end_def)
next
  case (Some t)
  from resolve_time_date[OF Some] have d: "dt_date t = dt_date now" .
  show ?thesis
  proof (cases "is_first_monday_input st (dt_date now)")
    case True
    then have "case map_of (entries (data st)) (strftime_date (dt_date now)) of
                 None \<Rightarrow> True | Some e \<Rightarrow> start e = None"
      by (auto simp: first_monday_iff empty_entry_def)
    with True Some d show ?thesis
      by (simp add: log_end_def cleared setdefault_entry_def empty_entry_def Let_def)
  next
    case False
    with Some d show ?thesis
      by (auto simp: log_end_def setdefault_entry_def empty_entry_def Let_def
            split: option.splits prod.splits)
  qed
qed

text \<open>
  Claim C3, as amended. When log-end fails because no start is recorded for today, the
  settings are unchanged. If the command is issued on a Monday that has no entry or an
  empty one, every date entry has been cleared and the cleared store written to the
  file before the failure, and the memory then holds an empty entry for that Monday
  only. Otherwise the file is untouched and every entry is unchanged; the only change in
  memory is an empty entry created for today when today had none.
\<close>

theorem log_end_missing_start:
  assumes "fst (log_end now time_str st) = MissingStart"
    and "today = strftime_date (dt_date now)"
    and "st' = snd (log_end now time_str st)"
  shows "lunch_break_minutes (data st') = lunch_break_minutes (data st)
       \<and> (is_first_monday_input st (dt_date now) \<longrightarrow>
             entries (data st') = [(today, empty_entry)]
           \<and> data_file st' = Some ((data st)\<lparr>entries := []\<rparr>))
       \<and> (\<not> is_first_monday_input st (dt_date now) \<longrightarrow>
             data_file st' = data_file st
           \<and> (\<forall>k. k \<noteq> today \<longrightarrow>
                 map_of (entries (data st')) k = map_of (entries (data st)) k)
           \<and> (map_of (entries (data st)) today = None \<longrightarrow>
                 map_of (entries (data st')) today = Some empty_entry)
           \<and> (map_of (entries (data st)) today \<noteq> None \<longrightarrow> st' = st))"
proof -
  from assms(1) obtain t where t: "resolve_time now time_str = Some t"
    and ns: "case map_of (entries (data st)) today of None \<Rightarrow> True | Some e \<Rightarrow> start e = None"
    unfolding log_end_missing_start_iff assms(2) by auto
  from resolve_time_date[OF t] have d: "dt_date t = dt_date now" .
  show ?thesis
  proof (cases "is_first_monday_input st (dt_date now)")
    case True
    with t d assms(2,3) show ?thesis
      by (simp add: log_end_def cleared setdefault_entry_def empty_entry_def Let_def)
         (simp add: clear_previous_entries_def save_data_def set_entries_def)
  next
    case False
    with t d ns assms(2,3) show ?thesis
      by (auto simp: log_end_def setdefault_entry_def empty_entry_def Let_def set_entries_def
            update_conv' split: option.splits)
  qed
qed

lemma wednesday:
  "weekday (dt_date (clock 738888 h m s)) = 2"
  "strftime_date (dt_date (clock 738888 h m s)) = ''2024-01-03''"
  by (simp_all add: clock_def example_weekdays example_week)

text \<open>Wednesday 2024-01-03 on the store that holds Tuesday only: an end logged from the
  clock finds no start; the file, the settings and Tuesday's entry are as before.\<close>

theorem log_end_missing_start_witness:
  "fst (log_end (clock 738888 17 0 30) None tuesday_done) = MissingStart
   \<and> lunch_break_minutes (data (snd (log_end (clock 738888 17 0 30) None tuesday_done))) = 30
   \<and> data_file (snd (log_end (clock 738888 17 0 30) None tuesday_done))
       = data_file tuesday_done
   \<and> map_of (entries (data (snd (log_end (clock 738888 17 0 30) None tuesday_done))))
        ''2024-01-02''
       = map_of (entries (data tuesday_done)) ''2024-01-02''
   \<and> map_of (entries (data (snd (log_end (clock 738888 17 0 30) None tuesday_done))))
        ''2024-01-03''
       = Some empty_entry"
proof -
  have m: "fst (log_end (clock 738888 17 0 30) None tuesday_done) = MissingStart"
    by (simp add: log_end_missing_start_iff wednesday tuesday_done_lookup resolve_time_def)
  have f: "\<not> is_first_monday_input tuesday_done (dt_date (clock 738888 17 0 30))"
    by (simp add: first_monday_iff wednesday)
  show ?thesis
    using log_end_missing_start[OF m wednesday(2)[symmetric] refl] f m
    by (simp add: tuesday_done_lookup)
qed

text \<open>
  Claim C3 as stated fails. On Monday 2024-01-08, an end logged on the store of the
  example week finds no start, and the three entries of the week are gone from the
  memory and from the file. On Wednesday 2024-01-03, an end logged on the store that
  holds Tuesday finds no start, and the memory holds a new, empty entry for Wednesday.
\<close>

theorem log_end_missing_start_counterexample:
  "map fst (entries (data week_example)) = [''2024-01-01'', ''2024-01-02'', ''2024-01-03'']
   \<and> data_file week_example = None
   \<and> log_end (clock 738893 17 0 0) (Some ''17:00'') week_example
       = (MissingStart,
          \<lparr>data = \<lparr>lunch_break_minutes = 30, entries = [(''2024-01-08'', empty_entry)]\<rparr>,
            data_file = Some \<lparr>lunch_break_minutes = 30, entries = []\<rparr>\<rparr>)
   \<and> fst (log_end (clock 738888 17 0 0) (Some ''17:00'') tuesday_done) = MissingStart
   \<and> map fst (entries (data tuesday_done)) = [''2024-01-02'']
   \<and> map fst (entries (data (snd (log_end (clock 738888 17 0 0) (Some ''17:00'')
                                     tuesday_done))))
       = [''2024-01-02'', ''2024-01-03'']"
  by (simp add: week_example_def tuesday_done_def)
     (simp add: run_defs example_weekdays example_week example_times Let_def)

subsection \<open>The recalculation of the whole store\<close>

lemma recalculate_entry_skip:
  "start e = None \<or> end_str e = None \<Longrightarrow> recalculate_entry L k e = (e, False)"
  by (auto simp: recalculate_entry_def split: option.splits)

lemma recalculate_entry_spec:
  assumes "start e = Some s" and "end_str e = Some t" and "strptime_date k = Some d"
    and "strptime_hm s = Some (sh, sm)" and "strptime_hm t = Some (eh, em)"
  shows "recalculate_entry L k e
           = (e\<lparr>hours_worked := Some (spec_hours_worked (spec_total_minutes (sh, sm) (eh, em) L)),
                total_minutes := Some (spec_total_minutes (sh, sm) (eh, em) L)\<rparr>, True)"
proof -
  from assms(3) have "k \<noteq> ''settings''"
    using strptime_date_not_settings by auto
  with assms show ?thesis
    by (simp add: recalculate_entry_def strptime_datetime_Some compute_worked_same_date)
qed

lemma recalculate_entry_frame:
  "start (fst (recalculate_entry L k e)) = start e"
  "end_str (fst (recalculate_entry L k e)) = end_str e"
  "\<not> snd (recalculate_entry L k e) \<Longrightarrow> fst (recalculate_entry L k e) = e"
  by (auto simp: recalculate_entry_def split: option.splits prod.splits)

lemma recalculate_loop_keys:
  "map fst (fst (recalculate_loop L es)) = map fst es"
  by (induction es) (auto split: prod.splits)

lemma recalculate_loop_lookup:
  "map_of (fst (recalculate_loop L es)) k
     = map_option (\<lambda>e. fst (recalculate_entry L k e)) (map_of es k)"
  by (induction es) (auto split: prod.splits)

lemma recalculate_loop_none:
  "snd (recalculate_loop L es) = 0 \<Longrightarrow> fst (recalculate_loop L es) = es"
proof (induction es)
  case Nil
  then show ?case by simp
next
  case (Cons p es)
  obtain k e where p: "p = (k, e)" by (cases p)
  from Cons.prems p have "\<not> snd (recalculate_entry L k e)"
    and "snd (recalculate_loop L es) = 0"
    by (auto split: prod.splits if_splits)
  with Cons.IH p recalculate_entry_frame(3)[of L k e] show ?case
    by (auto split: prod.splits)
qed

lemma recalculate_all_entries_data:
  "lunch_break_minutes (data (recalculate_all_entries st)) = lunch_break_minutes (data st)"
  "entries (data (recalculate_all_entries st))
     = fst (recalculate_loop (lunch_break_minutes (data st)) (entries (data st)))"
  by (simp_all add: recalculate_all_entries_def get_lunch_break_minutes_def Let_def
        set_entries_def save_data_def split: prod.splits)

lemma recalculate_all_entries_file:
  "data_file st = Some (data st) \<Longrightarrow>
   data_file (recalculate_all_entries st) = Some (data (recalculate_all_entries st))"
  using recalculate_loop_none[of "lunch_break_minutes (data st)" "entries (data st)"]
  by (auto simp: recalculate_all_entries_def get_lunch_break_minutes_def Let_def
        set_entries_def save_data_def split: prod.splits)

text \<open>\<open>round2\<close> is rounding to hundredths: a whole number of hundredths, at most half a
  hundredth away.\<close>

lemma round2_nearest:
  "\<exists>k::int. round2 x = of_int k / 100" "\<bar>round2 x - x\<bar> \<le> 1 / 200"
proof -
  show "\<exists>k::int. round2 x = of_int k / 100"
    by (auto simp: round2_def)
  have "\<bar>of_int (round_half_even y) - y\<bar> \<le> 1 / 2" for y
    unfolding round_half_even_def Let_def by (simp; linarith)
  from this[of "x * 100"] show "\<bar>round2 x - x\<bar> \<le> 1 / 200"
    unfolding round2_def by (simp add: field_simps abs_le_iff)
qed




subsection \<open>Changing the lunch break\<close>

lemma configure_lunch_break_updated:
  assumes "configure_lunch_break choice custom_input st = (LunchUpdated, st')"
  shows "\<exists>L. 0 \<le> L \<and> L \<le> 120
           \<and> st' = recalculate_all_entries (set_lunch_break_minutes L st)"
proof -
  let ?r = "\<lambda>L. recalculate_all_entries (set_lunch_break_minutes L st)"
  from assms consider "st' = ?r 0" | "st' = ?r 15" | "st' = ?r 30" | "st' = ?r 45"
    | "st' = ?r 60" | L where "0 \<le> L" "L \<le> 120" "st' = ?r L"
    by (auto simp: configure_lunch_break_def split: if_splits option.splits)
  then show ?thesis
  proof cases
    case 1 then show ?thesis by (intro exI[of _ 0]) simp
  next
    case 2 then show ?thesis by (intro exI[of _ 15]) simp
  next
    case 3 then show ?thesis by (intro exI[of _ 30]) simp
  next
    case 4 then show ?thesis by (intro exI[of _ 45]) simp
  next
    case 5 then show ?thesis by (intro exI[of _ 60]) simp
  next
    case 6 then show ?thesis by blast
  qed
qed

text \<open>
  Claim C5. After a change of the lunch-break setting, the setting \<open>L\<close> is between 0 and
  120 and the store has the dates it had. Every entry keeps its start and its end; an entry
  without start or without end is left unchanged; an entry of a well-formed date whose
  start and end are present and parse as HH:MM has \<open>hours_worked\<close> and \<open>total_minutes\<close>
  recomputed from them with the new setting \<open>L\<close>. The result is in the file.
\<close>

theorem lunch_change_recalculates:
  assumes "configure_lunch_break choice custom_input st = (LunchUpdated, st')"
    and "L = lunch_break_minutes (data st')"
  shows "0 \<le> L \<and> L \<le> 120
         \<and> map fst (entries (data st')) = map fst (entries (data st))
         \<and> data_file st' = Some (data st')
         \<and> (\<forall>k e. map_of (entries (data st)) k = Some e \<longrightarrow>
               (\<exists>e'. map_of (entries (data st')) k = Some e'
                  \<and> start e' = start e \<and> end_str e' = end_str e
                  \<and> (start e = None \<or> end_str e = None \<longrightarrow> e' = e)
                  \<and> (\<forall>s t d sh sm eh em.
                        start e = Some s \<and> end_str e = Some t \<and> strptime_date k = Some d
                        \<and> strptime_hm s = Some (sh, sm) \<and> strptime_hm t = Some (eh, em) \<longrightarrow>
                        e' = e\<lparr>hours_worked :=
                                  Some (spec_hours_worked
                                         (spec_total_minutes (sh, sm) (eh, em) L)),
                                total_minutes :=
                                  Some (spec_total_minutes (sh, sm) (eh, em) L)\<rparr>)))"
proof -
  from configure_lunch_break_updated[OF assms(1)] obtain L' where
    L: "0 \<le> L'" "L' \<le> 120"
    and st': "st' = recalculate_all_entries (set_lunch_break_minutes L' st)"
    by blast
  let ?m = "set_lunch_break_minutes L' st"
  have m: "lunch_break_minutes (data ?m) = L'" "entries (data ?m) = entries (data st)"
    "data_file ?m = Some (data ?m)"
    by (simp_all add: set_lunch_break_minutes_def save_data_def)
  have LL: "L = L'"
    by (simp add: assms(2) st' recalculate_all_entries_data m)
  have e': "map_of (entries (data st')) k = Some (fst (recalculate_entry L k e))"
    if "map_of (entries (data st)) k = Some e" for k e
    using that by (simp add: LL st' recalculate_all_entries_data recalculate_loop_lookup m)
  have "map fst (entries (data st')) = map fst (entries (data st))"
    by (simp add: st' recalculate_all_entries_data recalculate_loop_keys m)
  moreover have "data_file st' = Some (data st')"
    unfolding st' using m(3) by (rule recalculate_all_entries_file)
  moreover have "\<exists>e'. map_of (entries (data st')) k = Some e'
                  \<and> start e' = start e \<and> end_str e' = end_str e
                  \<and> (start e = None \<or> end_str e = None \<longrightarrow> e' = e)
                  \<and> (\<forall>s t d sh sm eh em.
                        start e = Some s \<and> end_str e = Some t \<and> strptime_date k = Some d
                        \<and> strptime_hm s = Some (sh, sm) \<and> strptime_hm t = Some (eh, em) \<longrightarrow>
                        e' = e\<lparr>hours_worked :=
                                  Some (spec_hours_worked
                                         (spec_total_minutes (sh, sm) (eh, em) L)),
                                total_minutes :=
                                  Some (spec_total_minutes (sh, sm) (eh, em) L)\<rparr>)"
    if k: "map_of (entries (data st)) k = Some e" for k e
    using e'[OF k] recalculate_entry_frame(1,2)[of L k e] recalculate_entry_skip[of e L k]
      recalculate_entry_spec[of e _ _ k _ _ _ _ _ L]
    by auto
  ultimately show ?thesis using L LL by blast
qed

lemma two_days_lookup:
  "map_of (entries (data two_days)) ''2024-01-02''
     = Some \<lparr>start = Some ''09:00'', end_str = Some ''17:00'',
             hours_worked = Some (15/2), total_minutes = Some 450\<rparr>"
  "map_of (entries (data two_days)) ''2024-01-03''
     = Some \<lparr>start = Some ''09:00'', end_str = None,
             hours_worked = None, total_minutes = None\<rparr>"
  by (simp_all add: two_days_def Let_def)

text \<open>The example of the specification: choice 5 sets the lunch break to 60 minutes;
  the Tuesday that had 450 minutes under 30 now has 420 minutes and 7 hours, and the
  Wednesday without end is as it was.\<close>

theorem lunch_change_recalculates_witness:
  "fst (configure_lunch_break ''5'' [] two_days) = LunchUpdated
   \<and> lunch_break_minutes (data (snd (configure_lunch_break ''5'' [] two_days))) = 60
   \<and> map_of (entries (data (snd (configure_lunch_break ''5'' [] two_days)))) ''2024-01-02''
       = Some \<lparr>start = Some ''09:00'', end_str = Some ''17:00'',
               hours_worked = Some 7, total_minutes = Some 420\<rparr>
   \<and> map_of (entries (data (snd (configure_lunch_break ''5'' [] two_days)))) ''2024-01-03''
       = Some \<lparr>start = Some ''09:00'', end_str = None,
               hours_worked = None, total_minutes = None\<rparr>"
proof -
  let ?st' = "recalculate_all_entries (set_lunch_break_minutes 60 two_days)"
  have c: "configure_lunch_break ''5'' [] two_days = (LunchUpdated, ?st')"
    by (simp add: configure_lunch_break_def)
  have l: "lunch_break_minutes (data ?st') = 60"
    by (simp add: recalculate_all_entries_data set_lunch_break_minutes_def save_data_def)
  note k = lunch_change_recalculates[OF c l[symmetric], THEN conjunct2, THEN conjunct2,
             THEN conjunct2, THEN conjunct2, rule_format]
  from k[OF two_days_lookup(1)] example_week_parsed(2) example_times(1,3)
  have tue: "map_of (entries (data ?st')) ''2024-01-02''
       = Some \<lparr>start = Some ''09:00'', end_str = Some ''17:00'',
               hours_worked = Some 7, total_minutes = Some 420\<rparr>"
    by (auto simp: example_worked)
  from k[OF two_days_lookup(2)]
  have wed: "map_of (entries (data ?st')) ''2024-01-03''
       = Some \<lparr>start = Some ''09:00'', end_str = None,
               hours_worked = None, total_minutes = None\<rparr>"
    by auto
  from c l tue wed show ?thesis by simp
qed

subsection \<open>The invariant of the stored entries\<close>

text \<open>
  Claim C8 states that after every operation an entry with an end has a start, and
  that an entry with start and end carries the \<open>hours_worked\<close> and \<open>total_minutes\<close>
  recomputed from them and the current lunch break. The code breaks both. Logging the
  start at 10:00 on the Tuesday that was finished from 09:00 to 17:00 leaves the entry
  with 7.5 hours and 450 minutes, where the recomputation gives 6.5 hours and 390
  minutes (\<open>edit_past_day\<close> does recompute after it changes a start). And editing the
  Wednesday without entry, with the start prompt left empty and 17:00 given as end,
  stores an entry that has an end and no start (\<open>log_end\<close> does refuse an end without
  start).
\<close>

theorem log_start_leaves_stale_hours:
  "log_start (clock 738887 17 5 0) (Some ''10:00'') tuesday_done = (Logged, tuesday_restarted)
   \<and> map_of (entries (data tuesday_restarted)) ''2024-01-02''
       = Some \<lparr>start = Some ''10:00'', end_str = Some ''17:00'',
               hours_worked = Some (15/2), total_minutes = Some 450\<rparr>
   \<and> strptime_hm ''10:00'' = Some (10, 0) \<and> strptime_hm ''17:00'' = Some (17, 0)
   \<and> spec_total_minutes (10, 0) (17, 0) (lunch_break_minutes (data tuesday_restarted)) = 390
   \<and> spec_hours_worked 390 = 13/2
   \<and> edit_past_day ''2024-01-03'' [] ''17:00'' tuesday_done
       = (ChangesSaved,
          save_data (set_entries
            (entries (data tuesday_done)
               @ [(''2024-01-03'', \<lparr>start = None, end_str = Some ''17:00'',
                                     hours_worked = None, total_minutes = None\<rparr>)])
            tuesday_done))"
  by (simp add: tuesday_runs example_times example_worked)
     (simp add: run_defs tuesday_restarted_def tuesday_done_def example_week_parsed
        example_times example_worked Let_def)

end
